theory Spec2Isabelle
  imports Complex_Main "HOL-Library.AList"
begin

section \<open>JavaScript built-ins used by the flow views\<close>

text \<open>
  The views are TypeScript running on the ECMAScript \<open>Date\<close> object.  A \<open>Date\<close> is
  modelled by its time value, an integer number of milliseconds since 1970-01-01T00:00Z;
  an Invalid Date (time value NaN) is \<open>None\<close>.  Local time is taken to be UTC.  Amounts
  (JavaScript numbers) are modelled as exact reals.
\<close>

type_synonym time = int

definition msPerDay :: int where
  "msPerDay = 86400000"

definition Day :: "time \<Rightarrow> int" where
  "Day t = t div msPerDay"

definition DaysInYear :: "int \<Rightarrow> int" where
  "DaysInYear y =
     (if y mod 4 \<noteq> 0 then 365 else if y mod 100 \<noteq> 0 then 366
      else if y mod 400 \<noteq> 0 then 365 else 366)"

definition DayFromYear :: "int \<Rightarrow> int" where
  "DayFromYear y = 365 * (y - 1970) + (y - 1969) div 4 - (y - 1901) div 100 + (y - 1601) div 400"

text \<open>Days of the year before month \<open>m\<close> (0 = January), as in ECMAScript's MonthFromTime table.\<close>

definition daysBeforeMonth :: "int \<Rightarrow> int \<Rightarrow> int" where
  "daysBeforeMonth y m =
     (let l = (if DaysInYear y = 366 then 1 else 0) in
      if m = 0 then 0 else if m = 1 then 31 else if m = 2 then 59 + l
      else if m = 3 then 90 + l else if m = 4 then 120 + l else if m = 5 then 151 + l
      else if m = 6 then 181 + l else if m = 7 then 212 + l else if m = 8 then 243 + l
      else if m = 9 then 273 + l else if m = 10 then 304 + l else 334 + l)"

definition daysInMonth :: "int \<Rightarrow> int \<Rightarrow> int" where
  "daysInMonth y m =
     (if m = 1 then (if DaysInYear y = 366 then 29 else 28)
      else if m = 3 \<or> m = 5 \<or> m = 8 \<or> m = 10 then 30 else 31)"

text \<open>ECMAScript MakeDay: the month (0-based) may lie outside 0..11 and the date outside the month.\<close>

definition MakeDay :: "int \<Rightarrow> int \<Rightarrow> int \<Rightarrow> int" where
  "MakeDay year month date =
     (let ym = year + month div 12; mn = month mod 12
      in DayFromYear ym + daysBeforeMonth ym mn + date - 1)"

text \<open>Year, month (0-based) and day of month of a day number.\<close>

definition civilFromDay :: "int \<Rightarrow> int \<times> int \<times> int" where
  "civilFromDay dn =
     (let z = dn + 719468;
          era = z div 146097;
          doe = z - era * 146097;
          yoe = (doe - doe div 1460 + doe div 36524 - doe div 146096) div 365;
          doy = doe - (365 * yoe + yoe div 4 - yoe div 100);
          mp = (5 * doy + 2) div 153;
          d = doy - (153 * mp + 2) div 5 + 1;
          m = (if mp < 10 then mp + 2 else mp - 10);
          y = yoe + era * 400 + (if m \<le> 1 then 1 else 0)
      in (y, m, d))"

definition getFullYear :: "time \<Rightarrow> int" where
  "getFullYear t = fst (civilFromDay (Day t))"

definition getMonth :: "time \<Rightarrow> int" where
  "getMonth t = fst (snd (civilFromDay (Day t)))"

definition getDate :: "time \<Rightarrow> int" where
  "getDate t = snd (snd (civilFromDay (Day t)))"


subsection \<open>Digits and number formatting\<close>

definition digitVal :: "char \<Rightarrow> int option" where
  "digitVal c = (let n = (of_char c :: int) in if 48 \<le> n \<and> n \<le> 57 then Some (n - 48) else None)"

fun digitsVal :: "int \<Rightarrow> string \<Rightarrow> int option" where
  "digitsVal acc [] = Some acc"
| "digitsVal acc (c # cs) =
     (case digitVal c of None \<Rightarrow> None | Some v \<Rightarrow> digitsVal (10 * acc + v) cs)"

definition digitChar :: "int \<Rightarrow> char" where
  "digitChar n = ''0123456789'' ! nat (n mod 10)"

definition pad2 :: "int \<Rightarrow> string" where
  "pad2 n = [digitChar (n div 10), digitChar n]"

definition pad4 :: "int \<Rightarrow> string" where
  "pad4 n = [digitChar (n div 1000), digitChar (n div 100), digitChar (n div 10), digitChar n]"

definition pad6 :: "int \<Rightarrow> string" where
  "pad6 n = [digitChar (n div 100000), digitChar (n div 10000)] @ pad4 n"

subsection \<open>Parsing and printing dates\<close>

text \<open>
  \<open>new Date(s)\<close> for the two shapes of string the views build: the date-only form
  \<open>YYYY-MM-DD\<close> (midnight UTC) and the same followed by \<open>T12:00:00Z\<close> (noon UTC).
  A month outside 1..12, a day outside the month, or any other shape gives an Invalid Date.
\<close>

definition parseDay :: "string \<Rightarrow> int option" where
  "parseDay s =
     (if length s = 10 \<and> s ! 4 = CHR ''-'' \<and> s ! 7 = CHR ''-'' then
        (case (digitsVal 0 (take 4 s), digitsVal 0 (take 2 (drop 5 s)), digitsVal 0 (drop 8 s)) of
           (Some y, Some m, Some d) \<Rightarrow>
             if 1 \<le> m \<and> m \<le> 12 \<and> 1 \<le> d \<and> d \<le> daysInMonth y (m - 1)
             then Some (MakeDay y (m - 1) d) else None
         | _ \<Rightarrow> None)
      else None)"

definition newDate :: "string \<Rightarrow> time option" where
  "newDate s =
     (if length s = 10 then map_option (\<lambda>d. d * msPerDay) (parseDay s)
      else if drop 10 s = ''T12:00:00Z''
      then map_option (\<lambda>d. d * msPerDay + 43200000) (parseDay (take 10 s))
      else None)"

text \<open>\<open>d.toISOString().split('T')[0]\<close>\<close>

definition toISODate :: "time \<Rightarrow> string" where
  "toISODate t =
     (case civilFromDay (Day t) of (y, m, d) \<Rightarrow>
        (if 0 \<le> y \<and> y \<le> 9999 then pad4 y
         else (if y < 0 then ''-'' else ''+'') @ pad6 \<bar>y\<bar>)
        @ ''-'' @ pad2 (m + 1) @ ''-'' @ pad2 d)"

text \<open>\<open>String(n)\<close> for an integer \<open>n\<close>, as in the template literal \<open>`${selectedYear}-${month}`\<close>.\<close>

function natToString :: "int \<Rightarrow> string" where
  "natToString n = (if n < 10 then [digitChar n] else natToString (n div 10) @ [digitChar n])"
  by pat_completeness auto
termination
  by (relation "measure nat") auto

definition numToString :: "int \<Rightarrow> string" where
  "numToString i = (if i < 0 then ''-'' @ natToString (- i) else natToString i)"

section \<open>Week buckets (RealWeeklyFlowView)\<close>


section \<open>Record model (types.ts)\<close>

datatype TransactionType = Income | Expense

record Guide =
  g_id :: string
  g_name :: string
  isInactiveForForecast :: bool

record Transaction =
  t_id :: string
  bank :: string
  guide :: string
  month :: string
  date :: string
  description :: string
  amountMN :: real
  amountME :: real
  t_type :: TransactionType
  assigned :: string

text \<open>\<open>const amountField = useME ? 'amountME' : 'amountMN'\<close> and \<open>t[amountField]\<close>.\<close>

datatype AmountField = AmountMN | AmountME

fun amountOf :: "AmountField \<Rightarrow> Transaction \<Rightarrow> real" where
  "amountOf AmountMN t = amountMN t"
| "amountOf AmountME t = amountME t"

record Totals =
  income :: real
  expense :: real
  net :: real

definition zeroTotals :: Totals where
  "zeroTotals = \<lparr>income = 0, expense = 0, net = 0\<rparr>"

text \<open>
  A JavaScript \<open>Map\<close> or object whose iteration order matters is an association list in
  insertion order: \<open>map_of\<close> reads it and \<open>AList.update\<close> writes it (a fresh key goes last,
  an existing key keeps its place).  \<open>dataByGuide\<close> maps a display name to the object
  holding that category's amount per bucket.
\<close>

type_synonym GuideData = "(string \<times> real) list"
type_synonym DataByGuide = "(string \<times> GuideData) list"

text \<open>\<open>m.get(k) || 0\<close> and \<open>obj[k] || 0\<close>\<close>

definition getOr0 :: "(string \<times> real) list \<Rightarrow> string \<Rightarrow> real" where
  "getOr0 m k = (case map_of m k of None \<Rightarrow> 0 | Some v \<Rightarrow> v)"

text \<open>\<open>dataByGuide.get(name)\<close> after \<open>if (!dataByGuide.has(name)) dataByGuide.set(name, {})\<close>\<close>

definition guideDataOf :: "(string \<times> (string \<times> 'a) list) list \<Rightarrow> string \<Rightarrow> (string \<times> 'a) list" where
  "guideDataOf dbg name = (case map_of dbg name of None \<Rightarrow> [] | Some gd \<Rightarrow> gd)"

text \<open>The transfer category.\<close>

definition transferGuideId :: string where
  "transferGuideId = ''13''"

definition sinCategoria :: string where
  "sinCategoria = ''Sin Categor'' @ [CHR 0xED] @ ''a''"

text \<open>
  \<open>guideMap = new Map(guides.map(g => [g.id, g.name]))\<close> (a later entry with the same id
  replaces an earlier one) and \<open>getGuideName = id => guideMap.get(id) || sinCategoria\<close>.
\<close>

definition getGuideName :: "Guide list \<Rightarrow> string \<Rightarrow> string" where
  "getGuideName guides i =
     (case map_of (rev (map (\<lambda>g. (g_id g, g_name g)) guides)) i of
        None \<Rightarrow> sinCategoria
      | Some n \<Rightarrow> if n = [] then sinCategoria else n)"

section \<open>Category aggregation shared by the views\<close>

text \<open>
  The loops of DailyFlowView and MonthlyFlowView differ in the bucket key they read from a
  transaction (\<open>t.date\<close>, respectively \<open>t.date.substring(0, 7)\<close>); the key is the
  parameter \<open>key\<close> below.
\<close>

text \<open>\<open>guideData[k] = (guideData[k] || 0) + amount\<close> on the (possibly fresh) entry of \<open>name\<close>.\<close>

definition addToGuide :: "string \<Rightarrow> string \<Rightarrow> real \<Rightarrow> DataByGuide \<Rightarrow> DataByGuide" where
  "addToGuide name k a dbg =
     (let guideData = guideDataOf dbg name
      in AList.update name (AList.update k (getOr0 guideData k + a) guideData) dbg)"

text \<open>\<open>buckets.forEach(b => totals.set(b, { income: 0, expense: 0, net: 0 }))\<close>\<close>

definition initTotals :: "string list \<Rightarrow> (string \<rightharpoonup> Totals)" where
  "initTotals buckets = foldl (\<lambda>m b. m(b \<mapsto> zeroTotals)) Map.empty buckets"

subsection \<open>DailyFlowView: transfers netted first\<close>

text \<open>Lines 112-116: the net of the transfer legs per bucket.\<close>

definition netTransferStep ::
  "(Transaction \<Rightarrow> string) \<Rightarrow> AmountField \<Rightarrow> (string \<times> real) list \<Rightarrow> Transaction \<Rightarrow> (string \<times> real) list" where
  "netTransferStep key af nets t =
     (if guide t = transferGuideId
      then AList.update (key t) (getOr0 nets (key t) + amountOf af t) nets
      else nets)"

definition netTransfers ::
  "(Transaction \<Rightarrow> string) \<Rightarrow> AmountField \<Rightarrow> Transaction list \<Rightarrow> (string \<times> real) list" where
  "netTransfers key af ts = foldl (netTransferStep key af) [] ts"

text \<open>Lines 119-138: every other transaction goes to its category and to the totals by type.\<close>

definition nonTransferStep ::
  "(Transaction \<Rightarrow> string) \<Rightarrow> Guide list \<Rightarrow> AmountField \<Rightarrow>
   DataByGuide \<times> (string \<rightharpoonup> Totals) \<Rightarrow> Transaction \<Rightarrow> DataByGuide \<times> (string \<rightharpoonup> Totals)" where
  "nonTransferStep key guides af st t =
     (case st of (dbg, totals) \<Rightarrow>
        if guide t \<noteq> transferGuideId then
          (addToGuide (getGuideName guides (guide t)) (key t) (amountOf af t) dbg,
           (case totals (key t) of
              None \<Rightarrow> totals
            | Some r \<Rightarrow>
                totals(key t \<mapsto>
                  (if t_type t = Income
                   then r\<lparr>income := income r + amountOf af t, net := net r + amountOf af t\<rparr>
                   else r\<lparr>expense := expense r + amountOf af t, net := net r + amountOf af t\<rparr>))))
        else st)"

text \<open>Lines 148-158: the net of a bucket replaces the transfer row's cell and joins the income total.\<close>

definition transferStep ::
  "string \<Rightarrow> DataByGuide \<times> (string \<rightharpoonup> Totals) \<Rightarrow> string \<times> real \<Rightarrow> DataByGuide \<times> (string \<rightharpoonup> Totals)" where
  "transferStep transferGuideName st e =
     (case st of (dbg, totals) \<Rightarrow>
        (case e of (b, netAmount) \<Rightarrow>
           (AList.update transferGuideName
              (AList.update b netAmount (guideDataOf dbg transferGuideName)) dbg,
            (case totals b of
               None \<Rightarrow> totals
             | Some r \<Rightarrow> totals(b \<mapsto> r\<lparr>income := income r + netAmount, net := net r + netAmount\<rparr>)))))"

text \<open>Lines 103-159.\<close>

definition twoPhase ::
  "(Transaction \<Rightarrow> string) \<Rightarrow> Guide list \<Rightarrow> AmountField \<Rightarrow> string list \<Rightarrow> Transaction list \<Rightarrow>
   DataByGuide \<times> (string \<rightharpoonup> Totals)" where
  "twoPhase key guides af buckets sortedTs =
     (let dailyNetTransfers = netTransfers key af sortedTs;
          st = foldl (nonTransferStep key guides af) ([], initTotals buckets) sortedTs
      in if dailyNetTransfers \<noteq> []
         then foldl (transferStep (getGuideName guides transferGuideId))
                (if map_of (fst st) (getGuideName guides transferGuideId) = None
                 then (AList.update (getGuideName guides transferGuideId) [] (fst st), snd st)
                 else st)
                dailyNetTransfers
         else st)"

subsection \<open>MonthlyFlowView: one pass\<close>

text \<open>Lines 82-90.\<close>

definition categoryStep ::
  "(Transaction \<Rightarrow> string) \<Rightarrow> Guide list \<Rightarrow> AmountField \<Rightarrow> DataByGuide \<Rightarrow> Transaction \<Rightarrow> DataByGuide" where
  "categoryStep key guides af dbg t =
     addToGuide (getGuideName guides (guide t)) (key t) (amountOf af t) dbg"

text \<open>Lines 99-116.\<close>

definition singlePassStep ::
  "(Transaction \<Rightarrow> string) \<Rightarrow> AmountField \<Rightarrow> (string \<rightharpoonup> Totals) \<Rightarrow> Transaction \<Rightarrow> (string \<rightharpoonup> Totals)" where
  "singlePassStep key af totals t =
     (case totals (key t) of
        None \<Rightarrow> totals
      | Some r \<Rightarrow>
          totals(key t \<mapsto>
            (if guide t = transferGuideId
             then r\<lparr>income := income r + amountOf af t, net := net r + amountOf af t\<rparr>
             else if t_type t = Income
             then r\<lparr>income := income r + amountOf af t, net := net r + amountOf af t\<rparr>
             else r\<lparr>expense := expense r + amountOf af t, net := net r + amountOf af t\<rparr>)))"

definition singlePass ::
  "(Transaction \<Rightarrow> string) \<Rightarrow> Guide list \<Rightarrow> AmountField \<Rightarrow> string list \<Rightarrow> Transaction list \<Rightarrow>
   DataByGuide \<times> (string \<rightharpoonup> Totals)" where
  "singlePass key guides af buckets yearlyTransactions =
     (foldl (categoryStep key guides af) [] yearlyTransactions,
      foldl (singlePassStep key af) (initTotals buckets) yearlyTransactions)"

section \<open>The table a view computes\<close>

text \<open>
  The object \<open>flowData\<close> returns: \<open>dates\<close> or \<open>months\<close> (here \<open>buckets\<close>),
  \<open>dataByGuide\<close>, \<open>dailyTotals\<close> or \<open>monthlyTotals\<close> (here \<open>totals\<close>) and
  \<open>initialBalance\<close>.
\<close>

record FlowTable =
  buckets :: "string list"
  dataByGuide :: DataByGuide
  totals :: "string \<rightharpoonup> Totals"
  initialBalance :: real

text \<open>Comparison of two Date objects: false as soon as one of them is invalid.\<close>

definition dateLess :: "time option \<Rightarrow> time option \<Rightarrow> bool" where
  "dateLess a b = (case (a, b) of (Some x, Some y) \<Rightarrow> x < y | _ \<Rightarrow> False)"

definition dateLessEq :: "time option \<Rightarrow> time option \<Rightarrow> bool" where
  "dateLessEq a b = (case (a, b) of (Some x, Some y) \<Rightarrow> x \<le> y | _ \<Rightarrow> False)"

text \<open>A filter that is \<open>null\<close> or the empty string is falsy.\<close>

definition filterSet :: "string option \<Rightarrow> string option" where
  "filterSet f = (case f of None \<Rightarrow> None | Some s \<Rightarrow> if s = [] then None else Some s)"

section \<open>DailyFlowView\<close>

text \<open>Line 71.\<close>

definition validTransactions :: "Transaction list \<Rightarrow> Transaction list" where
  "validTransactions transactions =
     filter (\<lambda>t. date t \<noteq> [] \<and> newDate (date t) \<noteq> None) transactions"

text \<open>Lines 74-76.\<close>

definition dailyInitialBalance :: "AmountField \<Rightarrow> string option \<Rightarrow> Transaction list \<Rightarrow> real" where
  "dailyInitialBalance af startDateFilter valid =
     foldl (\<lambda>acc t. acc + amountOf af t) 0
       (filter (\<lambda>t. case filterSet startDateFilter of
                       None \<Rightarrow> False
                     | Some s \<Rightarrow> dateLess (newDate (date t)) (newDate s)) valid)"

text \<open>Lines 78-85.\<close>

definition filteredTransactions ::
  "string option \<Rightarrow> string option \<Rightarrow> Transaction list \<Rightarrow> Transaction list" where
  "filteredTransactions startDateFilter endDateFilter valid =
     filter (\<lambda>t.
        \<not> (case filterSet startDateFilter of
             None \<Rightarrow> False | Some s \<Rightarrow> dateLess (newDate (date t)) (newDate s))
        \<and> \<not> (case filterSet endDateFilter of
             None \<Rightarrow> False | Some e \<Rightarrow> dateLess (newDate e) (newDate (date t)))) valid"

text \<open>Line 91: a stable sort by time value (every date of the list is valid).\<close>

definition timeKey :: "Transaction \<Rightarrow> time" where
  "timeKey t = (case newDate (date t) of None \<Rightarrow> 0 | Some x \<Rightarrow> x)"

definition sortedTransactions :: "Transaction list \<Rightarrow> Transaction list" where
  "sortedTransactions filtered = sort_key timeKey filtered"

text \<open>Lines 98-100: \<open>d.setDate(d.getDate() + 1)\<close> advances the time value by one day.\<close>

function enumDates :: "time \<Rightarrow> time \<Rightarrow> string list" where
  "enumDates d tableEndDate =
     (if d \<le> tableEndDate then toISODate d # enumDates (d + msPerDay) tableEndDate else [])"
  by pat_completeness auto
termination
  by (relation "measure (\<lambda>(d, e). nat (e - d + 1))") (auto simp: msPerDay_def)

text \<open>Lines 93-101.\<close>

definition tableDates :: "string option \<Rightarrow> string option \<Rightarrow> Transaction list \<Rightarrow> string list" where
  "tableDates startDateFilter endDateFilter sortedTs =
     (let tableStartDate =
            (case filterSet startDateFilter of
               Some s \<Rightarrow> newDate s
             | None \<Rightarrow> (case sortedTs of [] \<Rightarrow> None | t # _ \<Rightarrow> newDate (date t)));
          tableEndDate =
            (case filterSet endDateFilter of
               Some e \<Rightarrow> newDate e
             | None \<Rightarrow> (if sortedTs = [] then None else newDate (date (last sortedTs))))
      in case (tableStartDate, tableEndDate) of
           (Some s, Some e) \<Rightarrow> enumDates s e
         | _ \<Rightarrow> [])"

text \<open>Lines 69-162.\<close>

definition dailyFlowData ::
  "Guide list \<Rightarrow> Transaction list \<Rightarrow> string option \<Rightarrow> string option \<Rightarrow> AmountField \<Rightarrow> FlowTable" where
  "dailyFlowData guides transactions startDateFilter endDateFilter af =
     (let valid = validTransactions transactions in
      if valid = []
      then \<lparr>buckets = [], dataByGuide = [], totals = Map.empty, initialBalance = 0\<rparr>
      else
        (let initBal = dailyInitialBalance af startDateFilter valid;
             filtered = filteredTransactions startDateFilter endDateFilter valid in
         if filtered = []
         then \<lparr>buckets = [], dataByGuide = [], totals = Map.empty, initialBalance = initBal\<rparr>
         else
           (let sortedTs = sortedTransactions filtered;
                dates = tableDates startDateFilter endDateFilter sortedTs;
                st = twoPhase date guides af dates sortedTs
            in \<lparr>buckets = dates, dataByGuide = fst st, totals = snd st,
                initialBalance = initBal\<rparr>)))"

subsection \<open>Row order and the expense section\<close>



text \<open>\<open>Array.prototype.sort\<close> with a comparator: a stable insertion sort.\<close>

fun insertBy :: "('a \<Rightarrow> 'a \<Rightarrow> int) \<Rightarrow> 'a \<Rightarrow> 'a list \<Rightarrow> 'a list" where
  "insertBy cmp x [] = [x]"
| "insertBy cmp x (y # ys) = (if cmp x y \<le> 0 then x # y # ys else y # insertBy cmp x ys)"

definition sortBy :: "('a \<Rightarrow> 'a \<Rightarrow> int) \<Rightarrow> 'a list \<Rightarrow> 'a list" where
  "sortBy cmp xs = foldr (insertBy cmp) xs []"


subsection \<open>Running balance rows\<close>





section \<open>MonthlyFlowView\<close>

text \<open>\<open>new Date(t.date).getFullYear()\<close>; NaN for an invalid date.\<close>

definition fullYearOf :: "string \<Rightarrow> int option" where
  "fullYearOf s = map_option getFullYear (newDate s)"

text \<open>Lines 68-71.\<close>

definition monthsOf :: "int \<Rightarrow> string list" where
  "monthsOf selectedYear =
     map (\<lambda>i. numToString selectedYear @ ''-'' @ pad2 (i + 1)) [0..11]"

text \<open>Line 77.\<close>

definition yearlyTransactions :: "int \<Rightarrow> Transaction list \<Rightarrow> Transaction list" where
  "yearlyTransactions selectedYear transactions =
     filter (\<lambda>t. date t \<noteq> [] \<and> fullYearOf (date t) = Some selectedYear) transactions"

text \<open>\<open>t.date.substring(0, 7)\<close>\<close>

definition monthKey :: "Transaction \<Rightarrow> string" where
  "monthKey t = take 7 (date t)"

text \<open>Lines 67-119.\<close>

definition monthlyFlowData ::
  "Guide list \<Rightarrow> Transaction list \<Rightarrow> AmountField \<Rightarrow> int \<Rightarrow> FlowTable" where
  "monthlyFlowData guides transactions af selectedYear =
     (let months = monthsOf selectedYear;
          initBal = foldl (\<lambda>acc t. acc + amountOf af t) 0
                      (filter (\<lambda>t. case fullYearOf (date t) of
                                      None \<Rightarrow> False | Some y \<Rightarrow> y < selectedYear) transactions);
          st = singlePass monthKey guides af months (yearlyTransactions selectedYear transactions)
      in \<lparr>buckets = months, dataByGuide = fst st, totals = snd st, initialBalance = initBal\<rparr>)"

section \<open>Specification vocabulary\<close>

text \<open>Sum of the selected amounts of the transactions satisfying \<open>P\<close>.\<close>

definition sumWhere :: "(Transaction \<Rightarrow> bool) \<Rightarrow> AmountField \<Rightarrow> Transaction list \<Rightarrow> real" where
  "sumWhere P af ts = sum_list (map (amountOf af) (filter P ts))"

text \<open>Per bucket: the non-transfer amounts typed Income, the other non-transfer amounts, and
  the net of the transfer legs.\<close>

definition incomeLegs :: "(Transaction \<Rightarrow> string) \<Rightarrow> AmountField \<Rightarrow> Transaction list \<Rightarrow> string \<Rightarrow> real" where
  "incomeLegs key af ts b =
     sumWhere (\<lambda>t. key t = b \<and> guide t \<noteq> transferGuideId \<and> t_type t = Income) af ts"

definition expenseLegs :: "(Transaction \<Rightarrow> string) \<Rightarrow> AmountField \<Rightarrow> Transaction list \<Rightarrow> string \<Rightarrow> real" where
  "expenseLegs key af ts b =
     sumWhere (\<lambda>t. key t = b \<and> guide t \<noteq> transferGuideId \<and> t_type t \<noteq> Income) af ts"

definition transferNet :: "(Transaction \<Rightarrow> string) \<Rightarrow> AmountField \<Rightarrow> Transaction list \<Rightarrow> string \<Rightarrow> real" where
  "transferNet key af ts b = sumWhere (\<lambda>t. key t = b \<and> guide t = transferGuideId) af ts"

text \<open>Adding \<open>i\<close> to the income, \<open>e\<close> to the expense and both to the net of a totals entry.\<close>

definition addTotals :: "Totals option \<Rightarrow> real \<Rightarrow> real \<Rightarrow> Totals option" where
  "addTotals r i e =
     map_option (\<lambda>r. \<lparr>income = income r + i, expense = expense r + e, net = net r + (i + e)\<rparr>) r"

text \<open>The sum over all categories of the category's value in bucket \<open>b\<close>.\<close>

definition categorySum :: "DataByGuide \<Rightarrow> string \<Rightarrow> real" where
  "categorySum dbg b = sum_list (map (\<lambda>e. getOr0 (snd e) b) dbg)"

text \<open>The transactions DailyFlowView aggregates: valid, inside the filter range, sorted.\<close>

definition dailyRange :: "string option \<Rightarrow> string option \<Rightarrow> Transaction list \<Rightarrow> Transaction list" where
  "dailyRange startDateFilter endDateFilter transactions =
     sortedTransactions
       (filteredTransactions startDateFilter endDateFilter (validTransactions transactions))"

text \<open>The type of every non-transfer transaction agrees with the sign of its amount.\<close>

definition signsAgree :: "AmountField \<Rightarrow> Transaction list \<Rightarrow> bool" where
  "signsAgree af ts =
     list_all (\<lambda>t. guide t = transferGuideId
                  \<or> (if t_type t = Income then 0 \<le> amountOf af t else amountOf af t \<le> 0)) ts"

subsection \<open>Sample data\<close>

definition mkT :: "string \<Rightarrow> string \<Rightarrow> real \<Rightarrow> TransactionType \<Rightarrow> Transaction" where
  "mkT g d a ty =
     \<lparr>t_id = [], bank = [], guide = g, month = take 7 d, date = d, description = [],
      amountMN = a, amountME = 0, t_type = ty, assigned = []\<rparr>"

definition mkG :: "string \<Rightarrow> string \<Rightarrow> Guide" where
  "mkG i n = \<lparr>g_id = i, g_name = n, isInactiveForForecast = False\<rparr>"

text \<open>The scenario of the specification: one sale and the two legs of a transfer.\<close>

definition sampleGuides :: "Guide list" where
  "sampleGuides = [mkG ''1'' ''1-Ventas'', mkG ''13'' ''13-Traspasos'']"

definition sampleTransactions :: "Transaction list" where
  "sampleTransactions =
     [mkT ''1'' ''2024-01-05'' 100 Income,
      mkT ''13'' ''2024-01-05'' 50 Income,
      mkT ''13'' ''2024-01-06'' (- 50) Expense]"


text \<open>A catalog without category 13, and a transfer on the day of a transaction whose
  category is not in the catalog either.\<close>

definition guidesWithoutTransfer :: "Guide list" where
  "guidesWithoutTransfer = [mkG ''1'' ''1-Ventas'']"

definition uncategorizedAndTransfer :: "Transaction list" where
  "uncategorizedAndTransfer =
     [mkT ''7'' ''2024-01-05'' 100 Income,
      mkT ''13'' ''2024-01-05'' 50 Income]"

section \<open>ForecastedMonthlyFlowView\<close>

text \<open>
  The forecast view's \<open>flowData\<close> (lines 85-318).  Its per-month totals and the initial
  balance are computed from \<open>dataByGuide\<close> after the loop and are not modelled.
  \<open>Math.random()\<close> is the stream \<open>mathRandom\<close>, read in the order of the calls.
\<close>

subsection \<open>Strings\<close>

definition startsWith :: "string \<Rightarrow> string \<Rightarrow> bool" where
  "startsWith s p = (take (length p) s = p)"

definition endsWith :: "string \<Rightarrow> string \<Rightarrow> bool" where
  "endsWith s p = (length p \<le> length s \<and> drop (length s - length p) s = p)"

text \<open>A word character of a regular expression: \<open>[A-Za-z0-9_]\<close>.\<close>

definition isWordChar :: "char \<Rightarrow> bool" where
  "isWordChar c =
     (let n = (of_char c :: int)
      in (48 \<le> n \<and> n \<le> 57) \<or> (65 \<le> n \<and> n \<le> 90) \<or> (97 \<le> n \<and> n \<le> 122) \<or> n = 95)"

text \<open>\<open>P\d{4}\b\<close> at the head of a string.\<close>

fun codeAtHead :: "string \<Rightarrow> bool" where
  "codeAtHead (p # d1 # d2 # d3 # d4 # rest) =
     (p = CHR ''P'' \<and> digitVal d1 \<noteq> None \<and> digitVal d2 \<noteq> None \<and> digitVal d3 \<noteq> None
      \<and> digitVal d4 \<noteq> None \<and> (case rest of [] \<Rightarrow> True | c # _ \<Rightarrow> \<not> isWordChar c))"
| "codeAtHead _ = False"

text \<open>\<open>/\bP\d{4}\b/.test(name)\<close>; the flag says whether the previous character is a word character.\<close>

fun codeFrom :: "bool \<Rightarrow> string \<Rightarrow> bool" where
  "codeFrom prevWord [] = False"
| "codeFrom prevWord (c # cs) = ((\<not> prevWord \<and> codeAtHead (c # cs)) \<or> codeFrom (isWordChar c) cs)"

definition isOperatingIncomeName :: "string \<Rightarrow> bool" where
  "isOperatingIncomeName n = codeFrom False n"

subsection \<open>The catalog constants (lines 86-106)\<close>

definition nominaName :: string where
  "nominaName = ''19-N'' @ [CHR 0xF3] @ ''mina''"

definition excludedExpenseNamesForVat :: "string list" where
  "excludedExpenseNamesForVat =
     [nominaName, ''20-Aguinaldo'', ''22-PTU Garantizada'', ''25-N'' @ [CHR 0xF3] @ ''mina generico'',
      ''23-Finiquitos'', ''26-IMSS, RCV e INFONAVIT'', ''27-Impuesto Sobre Remuneraciones'',
      ''28-ISR Personas Morales'', ''30-ISR Retenido'', ''31-IVA Retenido'',
      ''32-Otros impuestos federales'', ''59-American Express Company mexic'',
      ''65-ISR por pagar'', ''66-IVA por pagar'', ''67-Retenidos por pagar'',
      ''68-IMSS, RCV e INFONAVIT por pagar'', ''69-Impuesto Sobre Remuneraciones por pagar'',
      ''70-Otros impuestos por pagar'', ''71-AMEXCO PYPSA Cta. 51003'',
      ''72-Carbures Europe, S.A (Suc)'', ''74-Fonacot'', ''75-Gratificacion Garantizada'',
      ''76-Gratificacion FA'', ''80-Otros Acreedores por Pagar'']"

text \<open>\<open>guides.find(p)?.id\<close>\<close>

definition findGuideId :: "(Guide \<Rightarrow> bool) \<Rightarrow> Guide list \<Rightarrow> string option" where
  "findGuideId p guides = map_option g_id (find p guides)"

text \<open>An id that is \<open>undefined\<close> or the empty string is falsy.\<close>

definition truthyId :: "string option \<Rightarrow> bool" where
  "truthyId i = (case i of None \<Rightarrow> False | Some s \<Rightarrow> s \<noteq> [])"

record Catalog =
  allGuides :: "Guide list"
  activeGuides :: "Guide list"
  initialBalanceGuideId :: "string option"
  aguinaldoGuideId :: "string option"
  nominaGuideId :: "string option"
  ptuGuideId :: "string option"
  vatGuideId :: "string option"
  operatingIncomeGuideIds :: "string set"
  excludedExpenseIdsForVat :: "string set"

definition catalogOf :: "Guide list \<Rightarrow> string set \<Rightarrow> Catalog" where
  "catalogOf guides excludedGuideIds =
     \<lparr>allGuides = guides,
      activeGuides = filter (\<lambda>g. \<not> isInactiveForForecast g \<and> g_id g \<notin> excludedGuideIds) guides,
      initialBalanceGuideId = findGuideId (\<lambda>g. g_name g = ''0-Saldo Inicial'') guides,
      aguinaldoGuideId = findGuideId (\<lambda>g. g_name g = ''20-Aguinaldo'') guides,
      nominaGuideId = findGuideId (\<lambda>g. g_name g = nominaName) guides,
      ptuGuideId = findGuideId (\<lambda>g. g_name g = ''22-PTU Garantizada'') guides,
      vatGuideId = findGuideId (\<lambda>g. startsWith (g_name g) ''29-'') guides,
      operatingIncomeGuideIds = g_id ` set (filter (\<lambda>g. isOperatingIncomeName (g_name g)) guides),
      excludedExpenseIdsForVat =
        g_id ` set (filter (\<lambda>g. g_name g \<in> set excludedExpenseNamesForVat) guides)\<rparr>"

text \<open>\<open>activeGuideIds.has(i)\<close>\<close>

definition isActiveId :: "'a Catalog_scheme \<Rightarrow> string \<Rightarrow> bool" where
  "isActiveId cat i = (i \<in> g_id ` set (activeGuides cat))"

text \<open>\<open>getGuide(i)?.name || fallback\<close>, with \<open>guideMap = new Map(guides.map(g => [g.id, g]))\<close>.\<close>

definition guideNameOr :: "Guide list \<Rightarrow> string \<Rightarrow> string \<Rightarrow> string" where
  "guideNameOr guides fallback i =
     (case map_of (rev (map (\<lambda>g. (g_id g, g_name g)) guides)) i of
        None \<Rightarrow> fallback
      | Some n \<Rightarrow> if n = [] then fallback else n)"

subsection \<open>The last real date and the trailing averages (lines 108-135)\<close>

text \<open>
  The comparator of line 108; with an invalid date the difference is NaN, which
  \<open>sort\<close> treats as 0.
\<close>

definition byDateDesc :: "Transaction \<Rightarrow> Transaction \<Rightarrow> int" where
  "byDateDesc a b =
     (case (newDate (date b), newDate (date a)) of
        (Some tb, Some ta) \<Rightarrow> tb - ta
      | _ \<Rightarrow> 0)"

definition lastRealDateOf :: "Transaction list \<Rightarrow> time option" where
  "lastRealDateOf transactions =
     (case sortBy byDateDesc transactions of
        [] \<Rightarrow> Some 0
      | t # _ \<Rightarrow> newDate (date t @ ''T12:00:00Z''))"

text \<open>\<open>d.setMonth(m)\<close>: the same day of month and time of day in month \<open>m\<close> of the year.\<close>

definition setMonth :: "time \<Rightarrow> int \<Rightarrow> time" where
  "setMonth t m = MakeDay (getFullYear t) m (getDate t) * msPerDay + t mod msPerDay"

definition historyStartDateOf :: "time option \<Rightarrow> time option" where
  "historyStartDateOf lastRealDate =
     (case lastRealDate of None \<Rightarrow> None | Some t \<Rightarrow> Some (setMonth t (getMonth t - 3)))"

definition historicalTransactions ::
  "'a Catalog_scheme \<Rightarrow> time option \<Rightarrow> Transaction list \<Rightarrow> Transaction list" where
  "historicalTransactions cat lastRealDate transactions =
     filter (\<lambda>t.
        if guide t = [] \<or> \<not> isActiveId cat (guide t) \<or> Some (guide t) = initialBalanceGuideId cat
        then False
        else (let tDate = newDate (date t @ ''T12:00:00Z'')
              in dateLessEq (historyStartDateOf lastRealDate) tDate \<and> dateLessEq tDate lastRealDate))
       transactions"

definition baseMonthlyAveragesOf :: "AmountField \<Rightarrow> Transaction list \<Rightarrow> (string \<times> real) list" where
  "baseMonthlyAveragesOf af historical =
     (if historical \<noteq> [] then
        (let sumsByGuide =
               foldl (\<lambda>m t. AList.update (guide t) (getOr0 m (guide t) + amountOf af t) m) [] historical;
             monthsInHistory = remdups (map (\<lambda>t. take 7 (date t)) historical);
             monthCount = (if length monthsInHistory > 0 then length monthsInHistory else 1)
         in map (\<lambda>(guideId, totalAmount). (guideId, totalAmount / real monthCount)) sumsByGuide)
      else [])"

subsection \<open>Year-over-year adjustment (lines 137-184)\<close>

definition isFutureYear :: "time option \<Rightarrow> int \<Rightarrow> bool" where
  "isFutureYear lastRealDate selectedYear =
     (case lastRealDate of None \<Rightarrow> False | Some t \<Rightarrow> getFullYear t < selectedYear)"

text \<open>\<open>monthStartDate > lastRealDate\<close>\<close>

definition isForecastMonth :: "time option \<Rightarrow> string \<Rightarrow> bool" where
  "isForecastMonth lastRealDate m = dateLess lastRealDate (newDate (m @ ''-01T12:00:00Z''))"

text \<open>\<open>averages.get(nominaGuideId) || 0\<close>\<close>

definition nominaAvgOf :: "'a Catalog_scheme \<Rightarrow> (string \<times> real) list \<Rightarrow> real" where
  "nominaAvgOf cat averages = (case nominaGuideId cat of None \<Rightarrow> 0 | Some i \<Rightarrow> getOr0 averages i)"

text \<open>Lines 150-161, for one entry of \<open>baseMonthlyAverages\<close>.\<close>

definition prevForecastStep ::
  "'a Catalog_scheme \<Rightarrow> (string \<times> real) list \<Rightarrow> string \<Rightarrow> (string \<times> real) list \<Rightarrow> string \<times> real \<Rightarrow>
   (string \<times> real) list" where
  "prevForecastStep cat base m previousYearTotals e =
     (case e of (guideId, avg) \<Rightarrow>
        if \<not> isActiveId cat guideId \<or> Some guideId = initialBalanceGuideId cat then previousYearTotals
        else if Some guideId = aguinaldoGuideId cat then
          (if endsWith m ''-12'' \<and> truthyId (nominaGuideId cat)
           then AList.update guideId
                  (getOr0 previousYearTotals guideId - \<bar>nominaAvgOf cat base\<bar> / 2) previousYearTotals
           else previousYearTotals)
        else AList.update guideId (getOr0 previousYearTotals guideId + avg) previousYearTotals)"

text \<open>Lines 163-168, for one transaction of the month.\<close>

definition prevRealStep ::
  "AmountField \<Rightarrow> (string \<times> real) list \<Rightarrow> Transaction \<Rightarrow> (string \<times> real) list" where
  "prevRealStep af previousYearTotals t =
     (if guide t \<noteq> []
      then AList.update (guide t) (getOr0 previousYearTotals (guide t) + amountOf af t) previousYearTotals
      else previousYearTotals)"

definition prevMonthStep ::
  "'a Catalog_scheme \<Rightarrow> Transaction list \<Rightarrow> AmountField \<Rightarrow> (string \<times> real) list \<Rightarrow> time option \<Rightarrow>
   (string \<times> real) list \<Rightarrow> string \<Rightarrow> (string \<times> real) list" where
  "prevMonthStep cat transactions af base lastRealDate previousYearTotals m =
     (if isForecastMonth lastRealDate m
      then foldl (prevForecastStep cat base m) previousYearTotals base
      else foldl (prevRealStep af) previousYearTotals
             (filter (\<lambda>t. take 7 (date t) = m \<and> isActiveId cat (guide t)
                           \<and> Some (guide t) \<noteq> initialBalanceGuideId cat) transactions))"

definition previousYearTotalsOf ::
  "'a Catalog_scheme \<Rightarrow> Transaction list \<Rightarrow> AmountField \<Rightarrow> (string \<times> real) list \<Rightarrow> time option \<Rightarrow>
   int \<Rightarrow> (string \<times> real) list" where
  "previousYearTotalsOf cat transactions af base lastRealDate selectedYear =
     foldl (prevMonthStep cat transactions af base lastRealDate) [] (monthsOf (selectedYear - 1))"

text \<open>Lines 172-182.\<close>

definition adjustedMonthlyAveragesOf ::
  "(string \<times> real) list \<Rightarrow> (string \<times> real) list \<Rightarrow> (string \<times> real) list" where
  "adjustedMonthlyAveragesOf base previousYearTotals =
     map (\<lambda>(guideId, avg).
            (let projectedTotal = avg * 12;
                 previousTotal = getOr0 previousYearTotals guideId
             in if \<bar>projectedTotal\<bar> > \<bar>previousTotal\<bar> \<and> previousTotal \<noteq> 0
                then (guideId, previousTotal / 12)
                else (guideId, avg))) base"

text \<open>The map \<open>monthlyAverages\<close> the forecast loop reads (lines 108-184).\<close>

definition baseAverages ::
  "Guide list \<Rightarrow> Transaction list \<Rightarrow> AmountField \<Rightarrow> string set \<Rightarrow> (string \<times> real) list" where
  "baseAverages guides transactions af excludedGuideIds =
     baseMonthlyAveragesOf af
       (historicalTransactions (catalogOf guides excludedGuideIds)
          (lastRealDateOf transactions) transactions)"

definition previousYearTotals ::
  "Guide list \<Rightarrow> Transaction list \<Rightarrow> int \<Rightarrow> AmountField \<Rightarrow> string set \<Rightarrow> (string \<times> real) list" where
  "previousYearTotals guides transactions selectedYear af excludedGuideIds =
     previousYearTotalsOf (catalogOf guides excludedGuideIds) transactions af
       (baseAverages guides transactions af excludedGuideIds)
       (lastRealDateOf transactions) selectedYear"

definition monthlyAverages ::
  "Guide list \<Rightarrow> Transaction list \<Rightarrow> int \<Rightarrow> AmountField \<Rightarrow> string set \<Rightarrow> (string \<times> real) list" where
  "monthlyAverages guides transactions selectedYear af excludedGuideIds =
     (if isFutureYear (lastRealDateOf transactions) selectedYear
      then adjustedMonthlyAveragesOf (baseAverages guides transactions af excludedGuideIds)
             (previousYearTotals guides transactions selectedYear af excludedGuideIds)
      else baseAverages guides transactions af excludedGuideIds)"

subsection \<open>The forecast loop (lines 186-300)\<close>

record Cell =
  amount :: real
  isForecast :: bool

type_synonym ForecastData = "(string \<times> (string \<times> Cell) list) list"

record VatDetailData =
  incomes :: "(string \<times> real) list"
  expenses :: "(string \<times> real) list"
  totalIncome :: real
  totalExpense :: real
  ivaCobrado :: real
  ivaAcreditable :: real
  netVat :: real

text \<open>
  What the loop over the months mutates: \<open>dataByGuide\<close> (keyed by guide id),
  \<open>vatDetailsByMonth\<close>, \<open>forecastCorrection\<close>, and the number of calls of
  \<open>Math.random()\<close> made so far.
\<close>

record LoopState =
  forecastData :: ForecastData
  vatDetailsByMonth :: "string \<rightharpoonup> VatDetailData"
  forecastCorrection :: "string \<rightharpoonup> real"
  drawn :: nat

text \<open>The constants the loop body reads.\<close>

record Env = Catalog +
  allTransactions :: "Transaction list"
  amountField :: AmountField
  lastRealDate :: "time option"
  averages :: "(string \<times> real) list"
  months :: "string list"
  mathRandom :: "nat \<Rightarrow> real"

text \<open>\<open>guideData[month] = cell\<close> on the (possibly fresh) entry of \<open>guideId\<close>.\<close>

definition setCell :: "string \<Rightarrow> string \<Rightarrow> Cell \<Rightarrow> ForecastData \<Rightarrow> ForecastData" where
  "setCell guideId m c d = AList.update guideId (AList.update m c (guideDataOf d guideId)) d"

text \<open>Lines 200-207, for one transaction of a real month.\<close>

definition realMonthStep :: "AmountField \<Rightarrow> string \<Rightarrow> LoopState \<Rightarrow> Transaction \<Rightarrow> LoopState" where
  "realMonthStep af m st t =
     (if guide t = [] then st
      else
        (let c = (case map_of (guideDataOf (forecastData st) (guide t)) m of
                    None \<Rightarrow> \<lparr>amount = 0, isForecast = False\<rparr>
                  | Some c \<Rightarrow> c)
         in st\<lparr>forecastData :=
                 setCell (guide t) m (c\<lparr>amount := amount c + amountOf af t\<rparr>) (forecastData st)\<rparr>))"

text \<open>\<open>forecastCorrection.get(id) || 0\<close>\<close>

definition correctionOf :: "LoopState \<Rightarrow> string \<Rightarrow> real" where
  "correctionOf st i = (case forecastCorrection st i of None \<Rightarrow> 0 | Some v \<Rightarrow> v)"

text \<open>Lines 252-257.\<close>

definition storeForecast :: "string \<Rightarrow> string \<Rightarrow> real \<Rightarrow> LoopState \<Rightarrow> LoopState" where
  "storeForecast guideId m a st =
     (if \<bar>a\<bar> > 0.01
      then st\<lparr>forecastData := setCell guideId m \<lparr>amount = a, isForecast = True\<rparr> (forecastData st)\<rparr>
      else st)"

text \<open>Lines 210-258, for one active guide in a forecast month.\<close>

definition forecastGuideStep :: "Env \<Rightarrow> string \<Rightarrow> LoopState \<Rightarrow> Guide \<Rightarrow> LoopState" where
  "forecastGuideStep env m st g =
     (if Some (g_id g) = vatGuideId env then st
      else if Some (g_id g) = aguinaldoGuideId env then
        storeForecast (g_id g) m
          (if endsWith m ''-12'' \<and> truthyId (nominaGuideId env)
           then - (\<bar>nominaAvgOf env (averages env)\<bar> / 2) else 0) st
      else if Some (g_id g) = ptuGuideId env then
        storeForecast (g_id g) m
          (if endsWith m ''-05'' \<and> truthyId (nominaGuideId env)
           then - (\<bar>nominaAvgOf env (averages env)\<bar> / 2) else 0) st
      else
        (let originalAmount = getOr0 (averages env) (g_id g) in
         if \<bar>originalAmount\<bar> < 0.01 then storeForecast (g_id g) m 0 st
         else if m \<noteq> last (months env) then
           (let variation = (mathRandom env (drawn st) - 0.5) * 0.4;
                variedAmount = originalAmount * (1 + variation);
                error = variedAmount - originalAmount
            in storeForecast (g_id g) m variedAmount
                 (st\<lparr>forecastCorrection :=
                        (forecastCorrection st)(g_id g \<mapsto> correctionOf st (g_id g) + error),
                     drawn := Suc (drawn st)\<rparr>))
         else
           (let correction = correctionOf st (g_id g)
            in storeForecast (g_id g) m (originalAmount - correction)
                 (st\<lparr>forecastCorrection := (forecastCorrection st)(g_id g := None)\<rparr>))))"

text \<open>Lines 262-285: the forecasts of the month that bear VAT, in the order of \<open>dataByGuide\<close>.\<close>

definition emptyVatDetail :: VatDetailData where
  "emptyVatDetail =
     \<lparr>incomes = [], expenses = [], totalIncome = 0, totalExpense = 0,
      ivaCobrado = 0, ivaAcreditable = 0, netVat = 0\<rparr>"

definition vatLineStep ::
  "Env \<Rightarrow> string \<Rightarrow> VatDetailData \<Rightarrow> string \<times> (string \<times> Cell) list \<Rightarrow> VatDetailData" where
  "vatLineStep env m vatDetail e =
     (case e of (guideId, monthData) \<Rightarrow>
        (case map_of monthData m of
           None \<Rightarrow> vatDetail
         | Some forecastForMonth \<Rightarrow>
             if isForecast forecastForMonth then
               (let a = amount forecastForMonth;
                    guideName = guideNameOr (allGuides env) ''Unknown'' guideId
                in if guideId \<in> operatingIncomeGuideIds env
                   then vatDetail\<lparr>incomes := incomes vatDetail @ [(guideName, a)],
                                  totalIncome := totalIncome vatDetail + a\<rparr>
                   else if a < 0 \<and> guideId \<notin> excludedExpenseIdsForVat env
                   then vatDetail\<lparr>expenses := expenses vatDetail @ [(guideName, a)],
                                  totalExpense := totalExpense vatDetail + a\<rparr>
                   else vatDetail)
             else vatDetail))"

text \<open>Lines 262-290.\<close>

definition vatDetailOf :: "Env \<Rightarrow> string \<Rightarrow> ForecastData \<Rightarrow> VatDetailData" where
  "vatDetailOf env m d =
     (let lines = foldl (vatLineStep env m) emptyVatDetail d;
          cobrado = (totalIncome lines / 1.16) * 0.16;
          acreditable = (\<bar>totalExpense lines\<bar> / 1.16) * 0.16;
          netVatToPay = cobrado - acreditable
      in lines\<lparr>ivaCobrado := cobrado, ivaAcreditable := acreditable, netVat := - netVatToPay\<rparr>)"

text \<open>Lines 261-298.\<close>

definition vatStep :: "Env \<Rightarrow> string \<Rightarrow> LoopState \<Rightarrow> LoopState" where
  "vatStep env m st =
     (case vatGuideId env of
        None \<Rightarrow> st
      | Some vatId \<Rightarrow>
          if vatId \<noteq> [] \<and> isActiveId env vatId then
            (let vatDetail = vatDetailOf env m (forecastData st) in
             if \<bar>netVat vatDetail\<bar> > 0.01
             then st\<lparr>forecastData :=
                       setCell vatId m \<lparr>amount = netVat vatDetail, isForecast = True\<rparr> (forecastData st),
                     vatDetailsByMonth := (vatDetailsByMonth st)(m \<mapsto> vatDetail)\<rparr>
             else st)
          else st)"

text \<open>Lines 194-300, for one month.\<close>

definition monthStep :: "Env \<Rightarrow> LoopState \<Rightarrow> string \<Rightarrow> LoopState" where
  "monthStep env st m =
     (if \<not> isForecastMonth (lastRealDate env) m
      then foldl (realMonthStep (amountField env) m) st
             (filter (\<lambda>t. take 7 (date t) = m) (allTransactions env))
      else vatStep env m (foldl (forecastGuideStep env m) st (activeGuides env)))"

definition initialLoopState :: LoopState where
  "initialLoopState =
     \<lparr>forecastData = [], vatDetailsByMonth = Map.empty, forecastCorrection = Map.empty, drawn = 0\<rparr>"

definition envOf ::
  "Guide list \<Rightarrow> Transaction list \<Rightarrow> int \<Rightarrow> AmountField \<Rightarrow> string set \<Rightarrow> (nat \<Rightarrow> real) \<Rightarrow> Env" where
  "envOf guides transactions selectedYear af excludedGuideIds rnd =
     Catalog.extend (catalogOf guides excludedGuideIds)
       \<lparr>allTransactions = transactions,
        amountField = af,
        lastRealDate = lastRealDateOf transactions,
        averages = monthlyAverages guides transactions selectedYear af excludedGuideIds,
        months = monthsOf selectedYear,
        mathRandom = rnd\<rparr>"

text \<open>Lines 85-318: the state when the loop over the twelve months ends.\<close>

definition forecastFlowData ::
  "Guide list \<Rightarrow> Transaction list \<Rightarrow> int \<Rightarrow> AmountField \<Rightarrow> string set \<Rightarrow> (nat \<Rightarrow> real) \<Rightarrow> LoopState" where
  "forecastFlowData guides transactions selectedYear af excludedGuideIds rnd =
     (let env = envOf guides transactions selectedYear af excludedGuideIds rnd
      in foldl (monthStep env) initialLoopState (months env))"

text \<open>The value \<open>dataByGuide.get(guideId)?.[month]?.amount\<close>, 0 when absent.\<close>

definition cellOf :: "LoopState \<Rightarrow> string \<Rightarrow> string \<Rightarrow> Cell option" where
  "cellOf st guideId m = map_of (guideDataOf (forecastData st) guideId) m"

definition storedAmount :: "LoopState \<Rightarrow> string \<Rightarrow> string \<Rightarrow> real" where
  "storedAmount st guideId m = (case cellOf st guideId m of None \<Rightarrow> 0 | Some c \<Rightarrow> amount c)"

text \<open>No perturbation: every call of \<open>Math.random()\<close> returns 0.5.\<close>

definition steadyRandom :: "nat \<Rightarrow> real" where
  "steadyRandom n = 0.5"

subsection \<open>What the prior-year total adds up\<close>

text \<open>
  The amount one month of the previous year contributes to a category's prior-year total:
  the category's transactions of the month when the month is not after the last real date;
  otherwise the category's base trailing average, except that the Aguinaldo category gets
  minus half the magnitude of the payroll base average in December and nothing in the
  other months.  Only active categories other than the initial-balance category count.
\<close>

definition priorMonthAmount ::
  "'a Catalog_scheme \<Rightarrow> Transaction list \<Rightarrow> AmountField \<Rightarrow> (string \<times> real) list \<Rightarrow> time option \<Rightarrow>
   string \<Rightarrow> string \<Rightarrow> real" where
  "priorMonthAmount cat transactions af base lastReal g m =
     (if isForecastMonth lastReal m then
        (case map_of base g of
           None \<Rightarrow> 0
         | Some avg \<Rightarrow>
             if \<not> isActiveId cat g \<or> Some g = initialBalanceGuideId cat then 0
             else if Some g = aguinaldoGuideId cat then
               (if endsWith m ''-12'' \<and> truthyId (nominaGuideId cat)
                then - (\<bar>nominaAvgOf cat base\<bar> / 2) else 0)
             else avg)
      else sumWhere (\<lambda>t. (take 7 (date t) = m \<and> isActiveId cat (guide t)
                            \<and> Some (guide t) \<noteq> initialBalanceGuideId cat)
                          \<and> guide t \<noteq> [] \<and> guide t = g) af transactions)"

text \<open>Two sales of one category, the last one in December 2024.\<close>

definition dampGuides :: "Guide list" where
  "dampGuides = [mkG ''1'' ''1-Ventas'']"

definition dampTransactions :: "Transaction list" where
  "dampTransactions =
     [mkT ''1'' ''2024-01-15'' 10 Income, mkT ''1'' ''2024-12-15'' 1000 Income]"

subsection \<open>Vocabulary for the forecast\<close>

text \<open>The state of the loop when the VAT of month \<open>m\<close> is computed: the months before
  \<open>m\<close> are done and every active guide has been forecast for \<open>m\<close>.\<close>

definition beforeVat :: "Env \<Rightarrow> string \<Rightarrow> LoopState" where
  "beforeVat env m =
     foldl (forecastGuideStep env m)
       (foldl (monthStep env) initialLoopState (takeWhile (\<lambda>x. x \<noteq> m) (months env)))
       (activeGuides env)"

text \<open>The stored forecasts of month \<open>m\<close>, as guide id and amount, in the order of
  \<open>dataByGuide\<close>.\<close>

definition forecastLine :: "string \<Rightarrow> string \<times> (string \<times> Cell) list \<Rightarrow> (string \<times> real) list" where
  "forecastLine m e =
     (case map_of (snd e) m of
        None \<Rightarrow> []
      | Some c \<Rightarrow> if isForecast c then [(fst e, amount c)] else [])"

definition forecastLines :: "string \<Rightarrow> ForecastData \<Rightarrow> (string \<times> real) list" where
  "forecastLines m d = concat (map (forecastLine m) d)"

text \<open>The lines that count as taxable income: operating-income categories, whatever the sign.\<close>

definition vatIncomeLines :: "Env \<Rightarrow> string \<Rightarrow> ForecastData \<Rightarrow> (string \<times> real) list" where
  "vatIncomeLines env m d =
     filter (\<lambda>l. fst l \<in> operatingIncomeGuideIds env) (forecastLines m d)"

text \<open>The lines that count as taxable expense: negative amounts of categories that are
  neither operating income nor in the exclusion list.\<close>

definition vatExpenseLines :: "Env \<Rightarrow> string \<Rightarrow> ForecastData \<Rightarrow> (string \<times> real) list" where
  "vatExpenseLines env m d =
     filter (\<lambda>l. fst l \<notin> operatingIncomeGuideIds env \<and> snd l < 0
                 \<and> fst l \<notin> excludedExpenseIdsForVat env) (forecastLines m d)"

definition namedLines :: "Env \<Rightarrow> (string \<times> real) list \<Rightarrow> (string \<times> real) list" where
  "namedLines env ls = map (\<lambda>l. (guideNameOr (allGuides env) ''Unknown'' (fst l), snd l)) ls"

text \<open>
  The VAT value as claim C3 words it: the expense side takes every negative forecast of a
  category outside the exclusion list, operating income included.
\<close>

definition vatAsClaimed :: "Env \<Rightarrow> string \<Rightarrow> ForecastData \<Rightarrow> real" where
  "vatAsClaimed env m d =
     - (sum_list (map snd (vatIncomeLines env m d)) / 1.16 * 0.16
        - \<bar>sum_list (map snd (filter (\<lambda>l. snd l < 0 \<and> fst l \<notin> excludedExpenseIdsForVat env)
                                 (forecastLines m d)))\<bar> / 1.16 * 0.16)"

text \<open>An operating-income category whose only transaction is a refund, and the VAT category.\<close>

definition vatGuides :: "Guide list" where
  "vatGuides = [mkG ''5'' ''P1234 Proyecto'', mkG ''29'' ''29-IVA'']"

definition vatTransactions :: "Transaction list" where
  "vatTransactions = [mkT ''5'' ''2024-11-15'' (- 116) Expense]"

text \<open>An operating-income category and a supplier category, and the VAT category.\<close>

definition vatGuides2 :: "Guide list" where
  "vatGuides2 = [mkG ''5'' ''P1234 Proyecto'', mkG ''40'' ''40-Proveedores'', mkG ''29'' ''29-IVA'']"

definition vatTransactions2 :: "Transaction list" where
  "vatTransactions2 =
     [mkT ''5'' ''2024-11-15'' 1160 Income, mkT ''40'' ''2024-11-20'' (- 580) Expense]"









section \<open>Properties\<close>


lemma Day_back: "Day (t - k * msPerDay) = Day t - k"
  by (simp add: Day_def msPerDay_def)



subsection \<open>The totals of one bucket in closed form\<close>

lemma sumWhere_Nil [simp]: "sumWhere P af [] = 0"
  by (simp add: sumWhere_def)

lemma sumWhere_Cons [simp]:
  "sumWhere P af (t # ts) = (if P t then amountOf af t else 0) + sumWhere P af ts"
  by (simp add: sumWhere_def)

lemma foldl_init_at:
  "foldl (\<lambda>m b. m(b \<mapsto> z)) m0 bs b = (if b \<in> set bs then Some z else m0 b)"
  by (induction bs arbitrary: m0) auto

lemma initTotals_at: "initTotals bs b = (if b \<in> set bs then Some zeroTotals else None)"
  by (simp add: initTotals_def foldl_init_at)

lemma addTotals_0 [simp]: "addTotals r 0 0 = r"
  by (cases r) (simp_all add: addTotals_def)

lemma addTotals_add: "addTotals (addTotals r i e) i' e' = addTotals r (i + i') (e + e')"
  by (cases r) (simp_all add: addTotals_def algebra_simps)

lemma singlePassStep_at:
  "singlePassStep key af tot t b =
     (if key t = b
      then (if guide t = transferGuideId \<or> t_type t = Income
            then addTotals (tot b) (amountOf af t) 0 else addTotals (tot b) 0 (amountOf af t))
      else tot b)"
  by (cases "tot (key t)") (auto simp: singlePassStep_def addTotals_def)

lemma singlePass_at:
  "foldl (singlePassStep key af) tot ts b =
     addTotals (tot b) (incomeLegs key af ts b + transferNet key af ts b) (expenseLegs key af ts b)"
proof (induction ts arbitrary: tot)
  case Nil
  show ?case by (simp add: incomeLegs_def transferNet_def expenseLegs_def)
next
  case (Cons t ts)
  have "foldl (singlePassStep key af) tot (t # ts) b =
        addTotals (singlePassStep key af tot t b)
          (incomeLegs key af ts b + transferNet key af ts b) (expenseLegs key af ts b)"
    by (simp only: foldl_Cons Cons.IH)
  also have "\<dots> = addTotals (tot b)
          (incomeLegs key af (t # ts) b + transferNet key af (t # ts) b)
          (expenseLegs key af (t # ts) b)"
    unfolding singlePassStep_at
    by (auto simp: addTotals_add incomeLegs_def transferNet_def expenseLegs_def algebra_simps)
  finally show ?case .
qed

lemma nonTransferStep_snd_at:
  "snd (nonTransferStep key guides af st t) b =
     (if key t = b \<and> guide t \<noteq> transferGuideId
      then (if t_type t = Income
            then addTotals (snd st b) (amountOf af t) 0 else addTotals (snd st b) 0 (amountOf af t))
      else snd st b)"
  by (cases st; cases "snd st (key t)") (auto simp: nonTransferStep_def addTotals_def)

lemma nonTransfer_at:
  "snd (foldl (nonTransferStep key guides af) st ts) b =
     addTotals (snd st b) (incomeLegs key af ts b) (expenseLegs key af ts b)"
proof (induction ts arbitrary: st)
  case Nil
  show ?case by (simp add: incomeLegs_def expenseLegs_def)
next
  case (Cons t ts)
  have "snd (foldl (nonTransferStep key guides af) st (t # ts)) b =
        addTotals (snd (nonTransferStep key guides af st t) b)
          (incomeLegs key af ts b) (expenseLegs key af ts b)"
    by (simp only: foldl_Cons Cons.IH)
  also have "\<dots> = addTotals (snd st b) (incomeLegs key af (t # ts) b) (expenseLegs key af (t # ts) b)"
    unfolding nonTransferStep_snd_at
    by (auto simp: addTotals_add incomeLegs_def expenseLegs_def algebra_simps)
  finally show ?case .
qed

lemma getOr0_update: "getOr0 (AList.update k v m) k' = (if k' = k then v else getOr0 m k')"
  by (simp add: getOr0_def update_conv')

lemma netTransferStep_at:
  "getOr0 (netTransferStep key af nets t) b =
     getOr0 nets b + (if key t = b \<and> guide t = transferGuideId then amountOf af t else 0)"
  by (simp add: netTransferStep_def getOr0_update)

lemma netTransfers_fold_at:
  "getOr0 (foldl (netTransferStep key af) nets ts) b = getOr0 nets b + transferNet key af ts b"
  by (induction ts arbitrary: nets) (simp_all add: netTransferStep_at transferNet_def)

lemma getOr0_Nil [simp]: "getOr0 [] b = 0"
  by (simp add: getOr0_def)

lemma netTransfers_at: "getOr0 (netTransfers key af ts) b = transferNet key af ts b"
  by (simp add: netTransfers_def netTransfers_fold_at)

lemma netTransferStep_distinct:
  "distinct (map fst nets) \<Longrightarrow> distinct (map fst (netTransferStep key af nets t))"
  by (simp add: netTransferStep_def distinct_update)

lemma netTransfers_fold_distinct:
  "distinct (map fst nets) \<Longrightarrow> distinct (map fst (foldl (netTransferStep key af) nets ts))"
  by (induction ts arbitrary: nets) (simp_all add: netTransferStep_distinct)

lemma netTransfers_distinct: "distinct (map fst (netTransfers key af ts))"
  by (simp add: netTransfers_def netTransfers_fold_distinct)

lemma transferStep_snd_at:
  "snd (transferStep name st (k, v)) b = (if k = b then addTotals (snd st b) v 0 else snd st b)"
  by (cases st; cases "snd st k") (auto simp: transferStep_def addTotals_def)

lemma getOr0_Cons: "getOr0 ((k, v) # al) b = (if k = b then v else getOr0 al b)"
  by (auto simp: getOr0_def)

lemma getOr0_notin: "b \<notin> fst ` set al \<Longrightarrow> getOr0 al b = 0"
  by (simp add: getOr0_def map_of_eq_None_iff [THEN iffD2])

lemma transfer_fold_at:
  "distinct (map fst al) \<Longrightarrow>
   snd (foldl (transferStep name) st al) b = addTotals (snd st b) (getOr0 al b) 0"
proof (induction al arbitrary: st)
  case Nil
  show ?case by simp
next
  case (Cons e al)
  obtain k v where e: "e = (k, v)" by (cases e)
  from Cons.prems have d: "distinct (map fst al)" and k: "k \<notin> fst ` set al"
    by (auto simp: e)
  have "snd (foldl (transferStep name) st (e # al)) b =
        addTotals (snd (transferStep name st (k, v)) b) (getOr0 al b) 0"
    by (simp only: foldl_Cons Cons.IH [OF d] e)
  also have "\<dots> = addTotals (snd st b) (getOr0 (e # al) b) 0"
  proof (cases "k = b")
    case True
    with k have "getOr0 al b = 0" by (simp add: getOr0_notin)
    with True show ?thesis by (simp add: e transferStep_snd_at getOr0_Cons)
  next
    case False
    then show ?thesis by (simp add: e transferStep_snd_at getOr0_Cons)
  qed
  finally show ?case .
qed

lemma twoPhase_at:
  "snd (twoPhase key guides af bs ts) b =
     addTotals (initTotals bs b) (incomeLegs key af ts b + transferNet key af ts b)
       (expenseLegs key af ts b)"
proof (cases "netTransfers key af ts = []")
  case True
  then have "getOr0 (netTransfers key af ts) b = 0"
    by (simp add: getOr0_def)
  then have "transferNet key af ts b = 0"
    by (simp add: netTransfers_at)
  then show ?thesis
    using True by (simp add: twoPhase_def Let_def nonTransfer_at)
next
  case False
  then show ?thesis
    by (simp add: twoPhase_def Let_def transfer_fold_at netTransfers_distinct nonTransfer_at
        netTransfers_at addTotals_add)
qed



subsection \<open>Running balance\<close>










subsection \<open>The totals of the two views\<close>

lemma addTotals_Some:
  "addTotals x i e = Some r \<Longrightarrow>
   \<exists>r0. x = Some r0 \<and> income r = income r0 + i \<and> expense r = expense r0 + e
     \<and> net r = net r0 + (i + e)"
  by (cases x) (auto simp: addTotals_def)

lemma initTotals_Some: "initTotals bs b = Some r0 \<Longrightarrow> r0 = zeroTotals \<and> b \<in> set bs"
  by (simp add: initTotals_at split: if_splits)

lemma twoPhase_totals:
  assumes "snd (twoPhase key guides af bs ts) b = Some r"
  shows "income r = incomeLegs key af ts b + transferNet key af ts b"
    and "expense r = expenseLegs key af ts b"
    and "net r = incomeLegs key af ts b + transferNet key af ts b + expenseLegs key af ts b"
    and "b \<in> set bs"
proof -
  from assms obtain r0 where r0: "initTotals bs b = Some r0"
    and i: "income r = income r0 + (incomeLegs key af ts b + transferNet key af ts b)"
    and e: "expense r = expense r0 + expenseLegs key af ts b"
    and n: "net r = net r0 + (incomeLegs key af ts b + transferNet key af ts b + expenseLegs key af ts b)"
    unfolding twoPhase_at by (blast dest: addTotals_Some)
  from initTotals_Some [OF r0] have z: "r0 = zeroTotals" and "b \<in> set bs"
    by simp_all
  then show "b \<in> set bs" by simp
  show "income r = incomeLegs key af ts b + transferNet key af ts b"
    using i z by (simp add: zeroTotals_def)
  show "expense r = expenseLegs key af ts b"
    using e z by (simp add: zeroTotals_def)
  show "net r = incomeLegs key af ts b + transferNet key af ts b + expenseLegs key af ts b"
    using n z by (simp add: zeroTotals_def)
qed

lemma singlePass_totals:
  assumes "snd (singlePass key guides af bs ts) b = Some r"
  shows "income r = incomeLegs key af ts b + transferNet key af ts b"
    and "expense r = expenseLegs key af ts b"
    and "net r = incomeLegs key af ts b + transferNet key af ts b + expenseLegs key af ts b"
    and "b \<in> set bs"
  using assms twoPhase_totals [of key guides af bs ts b r]
  by (simp_all add: twoPhase_at singlePass_def singlePass_at)

lemma daily_totals_twoPhase:
  assumes "totals (dailyFlowData guides transactions sf ef af) b = Some r"
  shows "\<exists>bs. snd (twoPhase date guides af bs (dailyRange sf ef transactions)) b = Some r
           \<and> bs = buckets (dailyFlowData guides transactions sf ef af)"
  using assms
  by (simp add: dailyFlowData_def dailyRange_def Let_def split: if_splits)

lemma monthly_totals_singlePass:
  "totals (monthlyFlowData guides transactions af y)
   = snd (singlePass monthKey guides af (monthsOf y) (yearlyTransactions y transactions))"
  by (simp add: monthlyFlowData_def Let_def)

subsection \<open>The transfer row\<close>

lemma guideDataOf_update: "guideDataOf (AList.update n gd dbg) n = gd"
  by (simp add: guideDataOf_def update_conv')

lemma transferStep_cell:
  "map_of (guideDataOf (fst (transferStep name st (k, v))) name) b =
     (if k = b then Some v else map_of (guideDataOf (fst st) name) b)"
  by (cases st) (simp add: transferStep_def guideDataOf_update update_conv')







subsection \<open>The expense section\<close>

lemma set_insertBy: "set (insertBy cmp x ys) = insert x (set ys)"
  by (induction ys) auto

lemma set_sortBy: "set (sortBy cmp xs) = set xs"
  unfolding sortBy_def by (induction xs) (simp_all add: set_insertBy)




subsection \<open>Signs of the totals\<close>

lemma sumWhere_nonneg:
  "(\<And>t. t \<in> set ts \<Longrightarrow> P t \<Longrightarrow> 0 \<le> amountOf af t) \<Longrightarrow> 0 \<le> sumWhere P af ts"
  by (induction ts) auto

lemma sumWhere_nonpos:
  "(\<And>t. t \<in> set ts \<Longrightarrow> P t \<Longrightarrow> amountOf af t \<le> 0) \<Longrightarrow> sumWhere P af ts \<le> 0"
proof (induction ts)
  case Nil
  show ?case by simp
next
  case (Cons t ts)
  have "sumWhere P af ts \<le> 0"
    by (rule Cons.IH) (simp add: Cons.prems)
  moreover have "(if P t then amountOf af t else 0) \<le> 0"
    using Cons.prems [of t] by simp
  ultimately show ?case by simp
qed


lemma signsAgree_legs:
  assumes "signsAgree af ts" and "set us \<subseteq> set ts"
  shows "0 \<le> incomeLegs key af us b" and "expenseLegs key af us b \<le> 0"
proof -
  have a: "\<And>t. t \<in> set us \<Longrightarrow> guide t \<noteq> transferGuideId \<Longrightarrow>
             (if t_type t = Income then 0 \<le> amountOf af t else amountOf af t \<le> 0)"
    using assms by (auto simp: signsAgree_def list_all_iff)
  show "0 \<le> incomeLegs key af us b"
    unfolding incomeLegs_def by (rule sumWhere_nonneg) (use a in force)
  show "expenseLegs key af us b \<le> 0"
    unfolding expenseLegs_def by (rule sumWhere_nonpos) (use a in force)
qed

lemma dailyRange_subset: "set (dailyRange sf ef transactions) \<subseteq> set transactions"
  by (auto simp: dailyRange_def sortedTransactions_def filteredTransactions_def
      validTransactions_def)

lemma yearlyTransactions_subset: "set (yearlyTransactions y transactions) \<subseteq> set transactions"
  by (auto simp: yearlyTransactions_def)

text \<open>
  C7, as the code has it.  When the type of every non-transfer transaction agrees with the
  sign of its amount, every bucket of DailyFlowView and of MonthlyFlowView has an expense
  total at most 0 and an income total at least the bucket's transfer net; the income total
  is therefore at least 0 when the transfer legs of the bucket do not net negative.
\<close>

theorem totals_signs:
  "signsAgree af transactions \<Longrightarrow>
   (totals (dailyFlowData guides transactions sf ef af) b = Some r \<longrightarrow>
      expense r \<le> 0 \<and> transferNet date af (dailyRange sf ef transactions) b \<le> income r)
   \<and> (totals (monthlyFlowData guides transactions af y) b = Some r' \<longrightarrow>
      expense r' \<le> 0
      \<and> transferNet monthKey af (yearlyTransactions y transactions) b \<le> income r')"
proof (intro conjI impI)
  assume s: "signsAgree af transactions"
  {
    assume a: "totals (dailyFlowData guides transactions sf ef af) b = Some r"
    from daily_totals_twoPhase [OF a] obtain bs
      where tp: "snd (twoPhase date guides af bs (dailyRange sf ef transactions)) b = Some r"
      by blast
    show "expense r \<le> 0"
      using twoPhase_totals(2) [OF tp] signsAgree_legs(2) [OF s dailyRange_subset] by simp
    show "transferNet date af (dailyRange sf ef transactions) b \<le> income r"
      using twoPhase_totals(1) [OF tp] signsAgree_legs(1) [OF s dailyRange_subset]
      by simp
  }
  {
    assume a: "totals (monthlyFlowData guides transactions af y) b = Some r'"
    then have sp: "snd (singlePass monthKey guides af (monthsOf y)
                     (yearlyTransactions y transactions)) b = Some r'"
      by (simp add: monthly_totals_singlePass)
    show "expense r' \<le> 0"
      using singlePass_totals(2) [OF sp] signsAgree_legs(2) [OF s yearlyTransactions_subset]
      by simp
    show "transferNet monthKey af (yearlyTransactions y transactions) b \<le> income r'"
      using singlePass_totals(1) [OF sp]
        signsAgree_legs(1) [OF s yearlyTransactions_subset]
      by simp
  }
qed

theorem totals_signs_witness:
  "signsAgree AmountMN sampleTransactions
   \<and> totals (dailyFlowData sampleGuides sampleTransactions None None AmountMN) ''2024-01-05''
       = Some \<lparr>income = 150, expense = 0, net = 150\<rparr>
   \<and> totals (monthlyFlowData sampleGuides sampleTransactions AmountMN 2024) ''2024-01''
       = Some \<lparr>income = 100, expense = 0, net = 100\<rparr>
   \<and> transferNet date AmountMN (dailyRange None None sampleTransactions) ''2024-01-05'' \<le> 150
   \<and> transferNet monthKey AmountMN (yearlyTransactions 2024 sampleTransactions) ''2024-01'' \<le> 100"
proof -
  have s: "signsAgree AmountMN sampleTransactions"
    by code_simp
  have d: "totals (dailyFlowData sampleGuides sampleTransactions None None AmountMN) ''2024-01-05''
       = Some \<lparr>income = 150, expense = 0, net = 150\<rparr>"
    by code_simp
  have m: "totals (monthlyFlowData sampleGuides sampleTransactions AmountMN 2024) ''2024-01''
       = Some \<lparr>income = 100, expense = 0, net = 100\<rparr>"
    by code_simp
  from totals_signs
    [OF s, of sampleGuides None None "''2024-01-05''" "\<lparr>income = 150, expense = 0, net = 150\<rparr>"
      2024 "\<lparr>income = 100, expense = 0, net = 100\<rparr>"]
  have "(totals (dailyFlowData sampleGuides sampleTransactions None None AmountMN) ''2024-01-05''
          = Some \<lparr>income = 150, expense = 0, net = 150\<rparr> \<longrightarrow>
         transferNet date AmountMN (dailyRange None None sampleTransactions) ''2024-01-05'' \<le> 150)"
    by simp
  with d have c1: "transferNet date AmountMN (dailyRange None None sampleTransactions) ''2024-01-05'' \<le> 150"
    by blast
  from totals_signs
    [OF s, of sampleGuides None None "''2024-01''" "\<lparr>income = 100, expense = 0, net = 100\<rparr>"
      2024 "\<lparr>income = 100, expense = 0, net = 100\<rparr>"]
  have "(totals (monthlyFlowData sampleGuides sampleTransactions AmountMN 2024) ''2024-01''
          = Some \<lparr>income = 100, expense = 0, net = 100\<rparr> \<longrightarrow>
         transferNet monthKey AmountMN (yearlyTransactions 2024 sampleTransactions) ''2024-01'' \<le> 100)"
    by simp
  with m have c2: "transferNet monthKey AmountMN (yearlyTransactions 2024 sampleTransactions) ''2024-01'' \<le> 100"
    by blast
  from s d m c1 c2 show ?thesis by blast
qed

text \<open>
  The scenario of the specification contradicts C7 as stated: on 2024-01-06 the only
  transaction is the outgoing transfer leg, and the bucket's income total is -50.
\<close>

theorem income_total_negative:
  "totals (dailyFlowData sampleGuides sampleTransactions None None AmountMN) ''2024-01-06''
     = Some \<lparr>income = - 50, expense = 0, net = - 50\<rparr>
   \<and> \<not> (0 \<le> income \<lparr>income = - 50, expense = 0, net = - 50\<rparr>)"
proof
  show "totals (dailyFlowData sampleGuides sampleTransactions None None AmountMN) ''2024-01-06''
     = Some \<lparr>income = - 50, expense = 0, net = - 50\<rparr>"
    by code_simp
  show "\<not> (0 \<le> income \<lparr>income = - 50, expense = 0, net = - 50\<rparr>)"
    by simp
qed

subsection \<open>The bucket sequence of DailyFlowView\<close>



lemma dailyRange_empty_iff:
  "dailyRange sf ef transactions = []
   \<longleftrightarrow> filteredTransactions sf ef (validTransactions transactions) = []"
  unfolding dailyRange_def sortedTransactions_def
  by (metis length_sort length_0_conv)






subsection \<open>Net conservation\<close>

lemma categorySum_update:
  "categorySum (AList.update n gd dbg) b
     = categorySum dbg b - getOr0 (guideDataOf dbg n) b + getOr0 gd b"
proof (induction dbg)
  case Nil
  show ?case by (simp add: categorySum_def guideDataOf_def)
next
  case (Cons e dbg)
  obtain m d where e: "e = (m, d)" by (cases e)
  show ?case
  proof (cases "m = n")
    case True
    then show ?thesis by (simp add: e categorySum_def guideDataOf_def)
  next
    case False
    have g: "guideDataOf (e # dbg) n = guideDataOf dbg n"
      using False by (simp add: e guideDataOf_def)
    have "categorySum (AList.update n gd (e # dbg)) b
          = getOr0 d b + categorySum (AList.update n gd dbg) b"
      using False by (simp add: e categorySum_def)
    also have "\<dots> = getOr0 d b + (categorySum dbg b - getOr0 (guideDataOf dbg n) b + getOr0 gd b)"
      by (simp only: Cons.IH)
    also have "\<dots> = categorySum (e # dbg) b - getOr0 (guideDataOf (e # dbg) n) b + getOr0 gd b"
      by (simp add: g) (simp add: e categorySum_def)
    finally show ?thesis .
  qed
qed

lemma categorySum_Nil [simp]: "categorySum [] b = 0"
  by (simp add: categorySum_def)

lemma addToGuide_sum:
  "categorySum (addToGuide name k a dbg) b = categorySum dbg b + (if k = b then a else 0)"
  by (simp add: addToGuide_def Let_def categorySum_update getOr0_update)

lemma categoryStep_fold_sum:
  "categorySum (foldl (categoryStep key guides af) dbg ts) b
     = categorySum dbg b + sumWhere (\<lambda>t. key t = b) af ts"
proof (induction ts arbitrary: dbg)
  case Nil
  show ?case by simp
next
  case (Cons t ts)
  show ?case
    by (simp only: foldl_Cons Cons.IH) (simp add: categoryStep_def addToGuide_sum)
qed

lemma bucket_sum_split:
  "sumWhere (\<lambda>t. key t = b) af ts
     = incomeLegs key af ts b + transferNet key af ts b + expenseLegs key af ts b"
  unfolding incomeLegs_def transferNet_def expenseLegs_def
  by (induction ts) auto

lemma nonTransfer_split:
  "sumWhere (\<lambda>t. key t = b \<and> guide t \<noteq> transferGuideId) af ts
     = incomeLegs key af ts b + expenseLegs key af ts b"
  unfolding incomeLegs_def expenseLegs_def
  by (induction ts) auto

lemma monthly_net_conservation:
  assumes "totals (monthlyFlowData guides transactions af y) b = Some r"
  shows "income r + expense r = net r"
    and "net r = categorySum (dataByGuide (monthlyFlowData guides transactions af y)) b"
proof -
  from assms have sp: "snd (singlePass monthKey guides af (monthsOf y)
                     (yearlyTransactions y transactions)) b = Some r"
    by (simp add: monthly_totals_singlePass)
  show "income r + expense r = net r"
    using singlePass_totals(1-3) [OF sp] by simp
  have "dataByGuide (monthlyFlowData guides transactions af y)
        = foldl (categoryStep monthKey guides af) [] (yearlyTransactions y transactions)"
    by (simp add: monthlyFlowData_def Let_def singlePass_def)
  then show "net r = categorySum (dataByGuide (monthlyFlowData guides transactions af y)) b"
    using singlePass_totals(3) [OF sp]
    by (simp add: categoryStep_fold_sum bucket_sum_split)
qed

lemma daily_income_expense_net:
  assumes "totals (dailyFlowData guides transactions sf ef af) b = Some r"
  shows "income r + expense r = net r"
proof -
  from daily_totals_twoPhase [OF assms] obtain bs
    where tp: "snd (twoPhase date guides af bs (dailyRange sf ef transactions)) b = Some r"
    by blast
  show ?thesis
    using twoPhase_totals(1-3) [OF tp] by simp
qed

text \<open>The category sums of DailyFlowView when no other row shares the transfer row's name.\<close>

lemma nonTransferStep_fst:
  "fst (nonTransferStep key guides af st t)
     = (if guide t \<noteq> transferGuideId
        then addToGuide (getGuideName guides (guide t)) (key t) (amountOf af t) (fst st)
        else fst st)"
  by (cases st) (simp add: nonTransferStep_def)

lemma nonTransfer_fold_sum:
  "categorySum (fst (foldl (nonTransferStep key guides af) st ts)) b
     = categorySum (fst st) b + sumWhere (\<lambda>t. key t = b \<and> guide t \<noteq> transferGuideId) af ts"
proof (induction ts arbitrary: st)
  case Nil
  show ?case by simp
next
  case (Cons t ts)
  show ?case
    by (simp only: foldl_Cons Cons.IH) (simp add: nonTransferStep_fst addToGuide_sum)
qed

lemma addToGuide_other: "n \<noteq> name \<Longrightarrow> map_of (addToGuide n k a dbg) name = map_of dbg name"
  by (simp add: addToGuide_def Let_def update_conv')

lemma nonTransfer_fold_other:
  "(\<And>t. t \<in> set ts \<Longrightarrow> guide t \<noteq> transferGuideId \<Longrightarrow> getGuideName guides (guide t) \<noteq> name)
   \<Longrightarrow> map_of (fst (foldl (nonTransferStep key guides af) st ts)) name = map_of (fst st) name"
proof (induction ts arbitrary: st)
  case Nil
  show ?case by simp
next
  case (Cons t ts)
  have "map_of (fst (foldl (nonTransferStep key guides af) st (t # ts))) name
        = map_of (fst (nonTransferStep key guides af st t)) name"
    by (simp only: foldl_Cons) (rule Cons.IH, simp add: Cons.prems)
  also have "\<dots> = map_of (fst st) name"
    using Cons.prems [of t] by (simp add: nonTransferStep_fst addToGuide_other)
  finally show ?case .
qed

lemma transferStep_fst:
  "fst (transferStep name st (k, v))
     = AList.update name (AList.update k v (guideDataOf (fst st) name)) (fst st)"
  by (cases st) (simp add: transferStep_def)

lemma transfer_fold_sum:
  "distinct (map fst al) \<Longrightarrow>
   (\<And>k. k \<in> fst ` set al \<Longrightarrow> map_of (guideDataOf (fst st) name) k = None) \<Longrightarrow>
   categorySum (fst (foldl (transferStep name) st al)) b = categorySum (fst st) b + getOr0 al b"
proof (induction al arbitrary: st)
  case Nil
  show ?case by simp
next
  case (Cons e al)
  obtain k v where e: "e = (k, v)" by (cases e)
  from Cons.prems(1) have d: "distinct (map fst al)" and k: "k \<notin> fst ` set al"
    by (auto simp: e)
  have none: "map_of (guideDataOf (fst st) name) k = None"
    by (rule Cons.prems(2)) (simp add: e)
  have inv: "\<And>k'. k' \<in> fst ` set al \<Longrightarrow>
               map_of (guideDataOf (fst (transferStep name st (k, v))) name) k' = None"
  proof -
    fix k' assume k': "k' \<in> fst ` set al"
    with k have "k \<noteq> k'" by auto
    moreover have "map_of (guideDataOf (fst st) name) k' = None"
      by (rule Cons.prems(2)) (use k' in \<open>simp add: e\<close>)
    ultimately show "map_of (guideDataOf (fst (transferStep name st (k, v))) name) k' = None"
      by (simp add: transferStep_cell)
  qed
  have step: "categorySum (fst (transferStep name st (k, v))) b
              = categorySum (fst st) b + (if k = b then v else 0)"
  proof -
    have g0: "getOr0 (guideDataOf (fst st) name) k = 0"
      using none by (simp add: getOr0_def)
    show ?thesis
    proof (cases "k = b")
      case True
      with g0 show ?thesis
        by (simp add: transferStep_fst categorySum_update getOr0_update)
    next
      case False
      then have "b \<noteq> k" by simp
      then show ?thesis
        by (simp add: transferStep_fst categorySum_update getOr0_update)
    qed
  qed
  have "categorySum (fst (foldl (transferStep name) st (e # al))) b
        = categorySum (fst (transferStep name st (k, v))) b + getOr0 al b"
    by (simp only: foldl_Cons e) (rule Cons.IH [OF d inv])
  also have "\<dots> = categorySum (fst st) b + getOr0 (e # al) b"
  proof (cases "k = b")
    case True
    with k have "getOr0 al b = 0" by (simp add: getOr0_notin)
    with True step show ?thesis by (simp add: e getOr0_Cons)
  next
    case False
    with step show ?thesis by (simp add: e getOr0_Cons)
  qed
  finally show ?case .
qed

lemma twoPhase_category_sum:
  assumes "\<And>t. t \<in> set ts \<Longrightarrow> guide t \<noteq> transferGuideId \<Longrightarrow>
             getGuideName guides (guide t) \<noteq> getGuideName guides transferGuideId"
  shows "categorySum (fst (twoPhase key guides af bs ts)) b = sumWhere (\<lambda>t. key t = b) af ts"
proof -
  define name where "name = getGuideName guides transferGuideId"
  define st where "st = foldl (nonTransferStep key guides af) ([], initTotals bs) ts"
  have absent: "map_of (fst st) name = None"
    unfolding st_def name_def
    by (subst nonTransfer_fold_other) (simp_all add: assms)
  have s2: "categorySum (fst st) b = incomeLegs key af ts b + expenseLegs key af ts b"
    unfolding st_def by (simp add: nonTransfer_fold_sum nonTransfer_split)
  show ?thesis
  proof (cases "netTransfers key af ts = []")
    case True
    then have "getOr0 (netTransfers key af ts) b = 0"
      by simp
    then have "transferNet key af ts b = 0"
      by (simp add: netTransfers_at)
    then show ?thesis
      using True s2
      by (simp add: twoPhase_def Let_def st_def [symmetric] bucket_sum_split)
  next
    case False
    define st' where "st' = (AList.update name [] (fst st), snd st)"
    have g: "guideDataOf (fst st') name = []"
      by (simp add: st'_def guideDataOf_update)
    have s3: "categorySum (fst st') b = categorySum (fst st) b"
      using absent by (simp add: st'_def categorySum_update guideDataOf_def)
    have "categorySum (fst (foldl (transferStep name) st' (netTransfers key af ts))) b
          = categorySum (fst st') b + getOr0 (netTransfers key af ts) b"
      by (rule transfer_fold_sum) (simp_all add: netTransfers_distinct g)
    then show ?thesis
      using False absent s2 s3
      by (simp add: twoPhase_def Let_def st_def [symmetric] name_def [symmetric]
          st'_def [symmetric] netTransfers_at bucket_sum_split)
  qed
qed

lemma daily_net_is_category_sum:
  assumes "totals (dailyFlowData guides transactions sf ef af) b = Some r"
    and "\<And>t. t \<in> set transactions \<Longrightarrow> guide t \<noteq> transferGuideId \<Longrightarrow>
           getGuideName guides (guide t) \<noteq> getGuideName guides transferGuideId"
  shows "net r = categorySum (dataByGuide (dailyFlowData guides transactions sf ef af)) b"
proof -
  from daily_totals_twoPhase [OF assms(1)] obtain bs
    where tp: "snd (twoPhase date guides af bs (dailyRange sf ef transactions)) b = Some r"
      and bs: "bs = buckets (dailyFlowData guides transactions sf ef af)"
    by blast
  have ne: "dailyRange sf ef transactions \<noteq> []"
  proof
    assume "dailyRange sf ef transactions = []"
    then have "filteredTransactions sf ef (validTransactions transactions) = []"
      by (simp add: dailyRange_empty_iff)
    then have "totals (dailyFlowData guides transactions sf ef af) = Map.empty"
      by (simp add: dailyFlowData_def Let_def)
    with assms(1) show False by simp
  qed
  then have f: "filteredTransactions sf ef (validTransactions transactions) \<noteq> []"
    by (simp add: dailyRange_empty_iff)
  then have v: "validTransactions transactions \<noteq> []"
    by (auto simp: filteredTransactions_def)
  have d: "dataByGuide (dailyFlowData guides transactions sf ef af)
        = fst (twoPhase date guides af (tableDates sf ef (dailyRange sf ef transactions))
                 (dailyRange sf ef transactions))"
    using f v by (simp add: dailyFlowData_def Let_def dailyRange_def)
  have "categorySum (dataByGuide (dailyFlowData guides transactions sf ef af)) b
        = sumWhere (\<lambda>t. date t = b) af (dailyRange sf ef transactions)"
    unfolding d
    by (rule twoPhase_category_sum) (use dailyRange_subset assms(2) in blast)
  then show ?thesis
    using twoPhase_totals(3) [OF tp] by (simp add: bucket_sum_split)
qed

text \<open>
  C6 holds for MonthlyFlowView (\<open>monthly_net_conservation\<close>) and, in DailyFlowView, for
  income + expense = net (\<open>daily_income_expense_net\<close>) and for the category sums when no
  other row shares the transfer row's name (\<open>daily_net_is_category_sum\<close>).  It fails in
  DailyFlowView when the names collide: with category 13 missing from the catalog, a
  transfer of 50 and a transaction of 100 of an unknown category on the same day both
  display as the fallback name; the transfer net overwrites the row's cell, so the bucket's
  net is 150 while its categories sum to 50.
\<close>

theorem daily_net_differs_from_category_sum:
  "totals (dailyFlowData guidesWithoutTransfer uncategorizedAndTransfer None None AmountMN)
     ''2024-01-05'' = Some \<lparr>income = 150, expense = 0, net = 150\<rparr>
   \<and> categorySum
       (dataByGuide (dailyFlowData guidesWithoutTransfer uncategorizedAndTransfer None None AmountMN))
       ''2024-01-05'' = 50"
proof
  show "totals (dailyFlowData guidesWithoutTransfer uncategorizedAndTransfer None None AmountMN)
     ''2024-01-05'' = Some \<lparr>income = 150, expense = 0, net = 150\<rparr>"
    by code_simp
  show "categorySum
       (dataByGuide (dailyFlowData guidesWithoutTransfer uncategorizedAndTransfer None None AmountMN))
       ''2024-01-05'' = 50"
    by code_simp
qed

subsection \<open>Year-over-year adjustment\<close>

lemma sumWhere_filter: "sumWhere P af (filter Q ts) = sumWhere (\<lambda>t. Q t \<and> P t) af ts"
  by (induction ts) auto

lemma update_fold_distinct:
  "distinct (map fst m) \<Longrightarrow>
   distinct (map fst (foldl (\<lambda>m t. AList.update (k t) (f m t) m) m ts))"
  by (induction ts arbitrary: m) (simp_all add: distinct_update)

lemma baseMonthlyAveragesOf_distinct: "distinct (map fst (baseMonthlyAveragesOf af historical))"
proof -
  have "distinct (map fst
          (foldl (\<lambda>m t. AList.update (guide t) (getOr0 m (guide t) + amountOf af t) m) [] historical))"
    by (rule update_fold_distinct) simp
  moreover have "\<And>c xs. map fst (map (\<lambda>(guideId, totalAmount). (guideId, totalAmount / c)) xs)
                    = map fst (xs :: (string \<times> real) list)"
    by (simp add: case_prod_beta)
  ultimately show ?thesis
    by (simp add: baseMonthlyAveragesOf_def Let_def del: map_map)
qed

lemma adjusted_map_of:
  "map_of (adjustedMonthlyAveragesOf base prev) g
     = map_option (\<lambda>avg. if \<bar>avg * 12\<bar> > \<bar>getOr0 prev g\<bar> \<and> getOr0 prev g \<noteq> 0
                         then getOr0 prev g / 12 else avg) (map_of base g)"
  unfolding adjustedMonthlyAveragesOf_def
  by (induction base) (auto simp: Let_def)

lemma prevForecastStep_at:
  "getOr0 (prevForecastStep cat base m prev (k, avg)) g
     = getOr0 prev g
       + (if k = g then
            (if \<not> isActiveId cat g \<or> Some g = initialBalanceGuideId cat then 0
             else if Some g = aguinaldoGuideId cat then
               (if endsWith m ''-12'' \<and> truthyId (nominaGuideId cat)
                then - (\<bar>nominaAvgOf cat base\<bar> / 2) else 0)
             else avg)
          else 0)"
  by (auto simp: prevForecastStep_def getOr0_update)

lemma prevForecast_fold_at:
  "distinct (map fst al) \<Longrightarrow>
   getOr0 (foldl (prevForecastStep cat base m) prev al) g
     = getOr0 prev g
       + (case map_of al g of
            None \<Rightarrow> 0
          | Some avg \<Rightarrow>
             if \<not> isActiveId cat g \<or> Some g = initialBalanceGuideId cat then 0
             else if Some g = aguinaldoGuideId cat then
               (if endsWith m ''-12'' \<and> truthyId (nominaGuideId cat)
                then - (\<bar>nominaAvgOf cat base\<bar> / 2) else 0)
             else avg)"
proof (induction al arbitrary: prev)
  case Nil
  show ?case by simp
next
  case (Cons e al)
  obtain k avg where e: "e = (k, avg)" by (cases e)
  from Cons.prems have d: "distinct (map fst al)" and k: "k \<notin> fst ` set al"
    by (auto simp: e)
  show ?case
  proof (cases "k = g")
    case True
    with k have "map_of al g = None"
      by (simp add: map_of_eq_None_iff)
    with True show ?thesis
      by (simp only: foldl_Cons e Cons.IH [OF d] prevForecastStep_at) simp
  next
    case False
    then show ?thesis
      by (simp only: foldl_Cons e Cons.IH [OF d] prevForecastStep_at) simp
  qed
qed

lemma prevReal_fold_at:
  "getOr0 (foldl (prevRealStep af) prev ts) g
     = getOr0 prev g + sumWhere (\<lambda>t. guide t \<noteq> [] \<and> guide t = g) af ts"
proof (induction ts arbitrary: prev)
  case Nil
  show ?case by simp
next
  case (Cons t ts)
  show ?case
    by (simp only: foldl_Cons Cons.IH) (auto simp: prevRealStep_def getOr0_update)
qed

lemma prevMonthStep_at:
  "distinct (map fst base) \<Longrightarrow>
   getOr0 (prevMonthStep cat transactions af base lastReal prev m) g
     = getOr0 prev g + priorMonthAmount cat transactions af base lastReal g m"
  by (simp add: prevMonthStep_def priorMonthAmount_def prevForecast_fold_at prevReal_fold_at
      sumWhere_filter)

lemma prevMonth_fold_at:
  "distinct (map fst base) \<Longrightarrow>
   getOr0 (foldl (prevMonthStep cat transactions af base lastReal) prev ms) g
     = getOr0 prev g
       + sum_list (map (priorMonthAmount cat transactions af base lastReal g) ms)"
proof (induction ms arbitrary: prev)
  case Nil
  show ?case by simp
next
  case (Cons m ms)
  show ?case
    by (simp only: foldl_Cons Cons.IH [OF Cons.prems] prevMonthStep_at [OF Cons.prems])
      (simp add: add.assoc)
qed

text \<open>
  C4, as the code has it.  When the selected year is later than the year of the last real
  date, a category with base trailing average \<open>avg\<close> is forecast with \<open>P / 12\<close> if
  \<open>|avg * 12| > |P|\<close> and \<open>P\<close> is not 0, and with \<open>avg\<close> otherwise, where \<open>P\<close> is the
  category's prior-year total.  That total adds, over the twelve months of the previous
  year, the category's transactions for a month not after the last real date and the base
  trailing average itself for a later month (Aguinaldo: minus half the payroll average in
  December only); it is not the forecast the view shows for that year.
\<close>

theorem monthly_average_adjustment:
  "isFutureYear (lastRealDateOf transactions) selectedYear \<Longrightarrow>
   map_of (baseAverages guides transactions af ex) g = Some avg \<Longrightarrow>
   map_of (monthlyAverages guides transactions selectedYear af ex) g
     = Some (if \<bar>avg * 12\<bar> > \<bar>getOr0 (previousYearTotals guides transactions selectedYear af ex) g\<bar>
                \<and> getOr0 (previousYearTotals guides transactions selectedYear af ex) g \<noteq> 0
             then getOr0 (previousYearTotals guides transactions selectedYear af ex) g / 12
             else avg)
   \<and> getOr0 (previousYearTotals guides transactions selectedYear af ex) g
     = sum_list (map (priorMonthAmount (catalogOf guides ex) transactions af
                        (baseAverages guides transactions af ex) (lastRealDateOf transactions) g)
                   (monthsOf (selectedYear - 1)))"
proof
  assume f: "isFutureYear (lastRealDateOf transactions) selectedYear"
    and b: "map_of (baseAverages guides transactions af ex) g = Some avg"
  show "map_of (monthlyAverages guides transactions selectedYear af ex) g
     = Some (if \<bar>avg * 12\<bar> > \<bar>getOr0 (previousYearTotals guides transactions selectedYear af ex) g\<bar>
                \<and> getOr0 (previousYearTotals guides transactions selectedYear af ex) g \<noteq> 0
             then getOr0 (previousYearTotals guides transactions selectedYear af ex) g / 12
             else avg)"
    using f b by (simp add: monthlyAverages_def adjusted_map_of)
  have "distinct (map fst (baseAverages guides transactions af ex))"
    unfolding baseAverages_def by (rule baseMonthlyAveragesOf_distinct)
  then show "getOr0 (previousYearTotals guides transactions selectedYear af ex) g
     = sum_list (map (priorMonthAmount (catalogOf guides ex) transactions af
                        (baseAverages guides transactions af ex) (lastRealDateOf transactions) g)
                   (monthsOf (selectedYear - 1)))"
    by (simp add: previousYearTotals_def previousYearTotalsOf_def prevMonth_fold_at)
qed

theorem monthly_average_adjustment_witness:
  "isFutureYear (lastRealDateOf dampTransactions) 2025
   \<and> map_of (baseAverages dampGuides dampTransactions AmountMN {}) ''1'' = Some 1000
   \<and> getOr0 (previousYearTotals dampGuides dampTransactions 2025 AmountMN {}) ''1'' = 1010
   \<and> map_of (monthlyAverages dampGuides dampTransactions 2025 AmountMN {}) ''1''
       = Some (1010 / 12)"
proof -
  have f: "isFutureYear (lastRealDateOf dampTransactions) 2025"
    by code_simp
  have b: "map_of (baseAverages dampGuides dampTransactions AmountMN {}) ''1'' = Some 1000"
    by code_simp
  have p: "getOr0 (previousYearTotals dampGuides dampTransactions 2025 AmountMN {}) ''1'' = 1010"
    by code_simp
  from monthly_average_adjustment [OF f b] p
  have "map_of (monthlyAverages dampGuides dampTransactions 2025 AmountMN {}) ''1''
       = Some (1010 / 12)"
    by simp
  with f b p show ?thesis by blast
qed

text \<open>
  The claim's prior-year total is not the one the code uses.  With the last real date in
  December 2024 and 2026 selected, every month of 2025 is a forecast month and the forecast
  the view shows for 2025 adds up to 1010 for the category, less in magnitude than 12 times
  the trailing average 1000; the claim asks for 1010 / 12, the code forecasts 2026 with 1000.
\<close>

theorem prior_year_forecast_not_used:
  "isFutureYear (lastRealDateOf dampTransactions) 2026
   \<and> list_all (isForecastMonth (lastRealDateOf dampTransactions)) (monthsOf 2025)
   \<and> map_of (baseAverages dampGuides dampTransactions AmountMN {}) ''1'' = Some 1000
   \<and> sum_list (map (storedAmount (forecastFlowData dampGuides dampTransactions 2025 AmountMN {}
                                     steadyRandom) ''1'') (monthsOf 2025)) = 1010
   \<and> \<bar>1000 * 12 :: real\<bar> > \<bar>1010\<bar>
   \<and> map_of (monthlyAverages dampGuides dampTransactions 2026 AmountMN {}) ''1'' = Some 1000
   \<and> (1000 :: real) \<noteq> 1010 / 12"
proof (intro conjI)
  show "isFutureYear (lastRealDateOf dampTransactions) 2026"
    by code_simp
  show "list_all (isForecastMonth (lastRealDateOf dampTransactions)) (monthsOf 2025)"
    by code_simp
  show "map_of (baseAverages dampGuides dampTransactions AmountMN {}) ''1'' = Some 1000"
    by code_simp
  show "sum_list (map (storedAmount (forecastFlowData dampGuides dampTransactions 2025 AmountMN {}
                                     steadyRandom) ''1'') (monthsOf 2025)) = 1010"
    by code_simp
  show "map_of (monthlyAverages dampGuides dampTransactions 2026 AmountMN {}) ''1'' = Some 1000"
    by code_simp
qed simp_all

subsection \<open>Which cells a step of the forecast loop writes\<close>

lemma guideDataOf_update_other: "g \<noteq> g' \<Longrightarrow> guideDataOf (AList.update g' x d) g = guideDataOf d g"
  by (simp add: guideDataOf_def update_conv')

lemma cellOf_setCell:
  "map_of (guideDataOf (setCell g' m' c d) g) m
     = (if g = g' \<and> m = m' then Some c else map_of (guideDataOf d g) m)"
  by (cases "g = g'")
    (simp_all add: setCell_def guideDataOf_update guideDataOf_update_other update_conv')

lemma cellOf_storeForecast:
  "cellOf (storeForecast g' m' a st) g m
     = (if g = g' \<and> m = m' \<and> \<bar>a\<bar> > 0.01 then Some \<lparr>amount = a, isForecast = True\<rparr>
        else cellOf st g m)"
  by (simp add: storeForecast_def cellOf_def cellOf_setCell)

lemma storeForecast_other [simp]:
  "forecastCorrection (storeForecast g m a st) = forecastCorrection st"
  "vatDetailsByMonth (storeForecast g m a st) = vatDetailsByMonth st"
  "drawn (storeForecast g m a st) = drawn st"
  by (simp_all add: storeForecast_def)

lemma realMonthStep_cell:
  "m \<noteq> m' \<Longrightarrow> cellOf (realMonthStep af m' st t) g m = cellOf st g m"
  by (simp add: realMonthStep_def Let_def cellOf_def cellOf_setCell)

lemma realMonthStep_other [simp]:
  "forecastCorrection (realMonthStep af m st t) = forecastCorrection st"
  "vatDetailsByMonth (realMonthStep af m st t) = vatDetailsByMonth st"
  by (simp_all add: realMonthStep_def Let_def)

lemma realMonth_fold:
  "forecastCorrection (foldl (realMonthStep af m') st ts) = forecastCorrection st"
  "vatDetailsByMonth (foldl (realMonthStep af m') st ts) = vatDetailsByMonth st"
  "m \<noteq> m' \<Longrightarrow> cellOf (foldl (realMonthStep af m') st ts) g m = cellOf st g m"
  by (induction ts arbitrary: st) (simp_all add: realMonthStep_cell)

lemma cellOf_cong: "forecastData st0 = forecastData st \<Longrightarrow> cellOf st0 g m = cellOf st g m"
  by (simp add: cellOf_def)

lemma forecastGuideStep_shape:
  "forecastGuideStep env m st h = st
   \<or> (\<exists>a st0. forecastGuideStep env m st h = storeForecast (g_id h) m a st0
        \<and> forecastData st0 = forecastData st
        \<and> vatDetailsByMonth st0 = vatDetailsByMonth st
        \<and> (\<forall>g. g \<noteq> g_id h \<longrightarrow> forecastCorrection st0 g = forecastCorrection st g))"
proof (cases "Some (g_id h) = vatGuideId env")
  case True
  then show ?thesis by (simp add: forecastGuideStep_def)
next
  case nv: False
  show ?thesis
  proof (cases "Some (g_id h) = aguinaldoGuideId env \<or> Some (g_id h) = ptuGuideId env")
    case True
    then have "\<exists>a. forecastGuideStep env m st h = storeForecast (g_id h) m a st"
      using nv by (auto simp: forecastGuideStep_def)
    then show ?thesis by blast
  next
    case False
    show ?thesis
    proof (cases "\<bar>getOr0 (averages env) (g_id h)\<bar> < 0.01")
      case True
      then have "forecastGuideStep env m st h = storeForecast (g_id h) m 0 st"
        using nv False by (simp add: forecastGuideStep_def Let_def)
      then show ?thesis by blast
    next
      case big: False
      show ?thesis
      proof (cases "m \<noteq> last (months env)")
        case True
        have "forecastGuideStep env m st h
              = storeForecast (g_id h) m
                  (getOr0 (averages env) (g_id h) * (1 + (mathRandom env (drawn st) - 0.5) * 0.4))
                  (st\<lparr>forecastCorrection :=
                        (forecastCorrection st)(g_id h \<mapsto> correctionOf st (g_id h)
                           + (getOr0 (averages env) (g_id h)
                                * (1 + (mathRandom env (drawn st) - 0.5) * 0.4)
                              - getOr0 (averages env) (g_id h))),
                      drawn := Suc (drawn st)\<rparr>)"
          using nv False big True by (simp add: forecastGuideStep_def Let_def)
        then show ?thesis
          by (intro disjI2 exI conjI) (assumption, simp_all)
      next
        case False
        have "forecastGuideStep env m st h
              = storeForecast (g_id h) m
                  (getOr0 (averages env) (g_id h) - correctionOf st (g_id h))
                  (st\<lparr>forecastCorrection := (forecastCorrection st)(g_id h := None)\<rparr>)"
          using nv \<open>\<not> (Some (g_id h) = aguinaldoGuideId env \<or> Some (g_id h) = ptuGuideId env)\<close>
            big False
          by (simp add: forecastGuideStep_def Let_def)
        then show ?thesis
          by (intro disjI2 exI conjI) (assumption, simp_all)
      qed
    qed
  qed
qed

lemma forecastGuideStep_vatDetails [simp]:
  "vatDetailsByMonth (forecastGuideStep env m st h) = vatDetailsByMonth st"
proof -
  from forecastGuideStep_shape [of env m st h] show ?thesis
  proof (elim disjE exE conjE)
    assume "forecastGuideStep env m st h = st"
    then show ?thesis by simp
  next
    fix a st0
    assume "forecastGuideStep env m st h = storeForecast (g_id h) m a st0"
      and "vatDetailsByMonth st0 = vatDetailsByMonth st"
    then show ?thesis by simp
  qed
qed

lemma forecastGuideStep_cell:
  "m \<noteq> m' \<or> g_id h \<noteq> g \<Longrightarrow> cellOf (forecastGuideStep env m' st h) g m = cellOf st g m"
proof -
  assume ne: "m \<noteq> m' \<or> g_id h \<noteq> g"
  from forecastGuideStep_shape [of env m' st h] show ?thesis
  proof (elim disjE exE conjE)
    assume "forecastGuideStep env m' st h = st"
    then show ?thesis by simp
  next
    fix a st0
    assume e: "forecastGuideStep env m' st h = storeForecast (g_id h) m' a st0"
      and d: "forecastData st0 = forecastData st"
    have "cellOf (storeForecast (g_id h) m' a st0) g m = cellOf st0 g m"
      using ne by (auto simp: cellOf_storeForecast)
    also have "\<dots> = cellOf st g m"
      by (rule cellOf_cong [OF d])
    finally show ?thesis by (simp only: e)
  qed
qed

lemma forecastGuideStep_cell_month:
  "m \<noteq> m' \<Longrightarrow> cellOf (forecastGuideStep env m' st h) g m = cellOf st g m"
  by (rule forecastGuideStep_cell) simp

lemma forecastGuideStep_cell_guide:
  "g_id h \<noteq> g \<Longrightarrow> cellOf (forecastGuideStep env m' st h) g m = cellOf st g m"
  by (rule forecastGuideStep_cell) simp

lemma forecastGuideStep_cell_vat:
  "vatGuideId env = Some v \<Longrightarrow> cellOf (forecastGuideStep env m' st h) v m = cellOf st v m"
proof (cases "g_id h = v")
  case True
  assume "vatGuideId env = Some v"
  with True have "forecastGuideStep env m' st h = st"
    by (simp add: forecastGuideStep_def)
  then show ?thesis by simp
next
  case False
  then show ?thesis by (rule forecastGuideStep_cell_guide)
qed


lemma forecast_fold_vatDetails:
  "vatDetailsByMonth (foldl (forecastGuideStep env m) st gs) = vatDetailsByMonth st"
  by (induction gs arbitrary: st) simp_all

lemma forecast_fold_cell_month:
  "m \<noteq> m' \<Longrightarrow> cellOf (foldl (forecastGuideStep env m') st gs) g m = cellOf st g m"
  by (induction gs arbitrary: st) (simp_all add: forecastGuideStep_cell_month)

lemma forecast_fold_cell_vat:
  "vatGuideId env = Some v \<Longrightarrow> cellOf (foldl (forecastGuideStep env m') st gs) v m = cellOf st v m"
  by (induction gs arbitrary: st) (simp_all add: forecastGuideStep_cell_vat)

lemma vatStep_cell_month:
  "m \<noteq> m' \<Longrightarrow> cellOf (vatStep env m' st) g m = cellOf st g m"
  by (simp add: vatStep_def Let_def cellOf_def cellOf_setCell split: option.split)


lemma vatStep_correction [simp]:
  "forecastCorrection (vatStep env m st) = forecastCorrection st"
  by (simp add: vatStep_def Let_def split: option.split)

lemma vatStep_vatDetails_month:
  "m \<noteq> m' \<Longrightarrow> vatDetailsByMonth (vatStep env m' st) m = vatDetailsByMonth st m"
  by (simp add: vatStep_def Let_def split: option.split)

lemma monthStep_cell_month:
  "m \<noteq> m' \<Longrightarrow> cellOf (monthStep env st m') g m = cellOf st g m"
  by (simp add: monthStep_def realMonth_fold vatStep_cell_month forecast_fold_cell_month)

lemma monthStep_vatDetails_month:
  "m \<noteq> m' \<Longrightarrow> vatDetailsByMonth (monthStep env st m') m = vatDetailsByMonth st m"
  by (simp add: monthStep_def realMonth_fold vatStep_vatDetails_month forecast_fold_vatDetails)

lemma month_fold_cell:
  "m \<notin> set ms \<Longrightarrow> cellOf (foldl (monthStep env) st ms) g m = cellOf st g m"
  by (induction ms arbitrary: st) (auto simp: monthStep_cell_month)

lemma month_fold_vatDetails:
  "m \<notin> set ms \<Longrightarrow> vatDetailsByMonth (foldl (monthStep env) st ms) m = vatDetailsByMonth st m"
  by (induction ms arbitrary: st) (auto simp: monthStep_vatDetails_month)

lemma cellOf_initial [simp]: "cellOf initialLoopState g m = None"
  by (simp add: cellOf_def initialLoopState_def guideDataOf_def)

lemma split_at_month:
  "m \<in> set ms \<Longrightarrow>
   ms = takeWhile (\<lambda>x. x \<noteq> m) ms @ m # tl (dropWhile (\<lambda>x. x \<noteq> m) ms)"
  by (induction ms) auto

lemma after_month_distinct:
  "distinct ms \<Longrightarrow> m \<notin> set (tl (dropWhile (\<lambda>x. x \<noteq> m) ms))"
  by (induction ms) auto

lemma before_month: "m \<notin> set (takeWhile (\<lambda>x. x \<noteq> m) ms)"
  by (induction ms) auto

subsection \<open>The derived VAT category\<close>

lemma vatLineStep_fields:
  "incomes (vatLineStep env m D e)
     = incomes D @ namedLines env (filter (\<lambda>l. fst l \<in> operatingIncomeGuideIds env) (forecastLine m e))"
  "totalIncome (vatLineStep env m D e)
     = totalIncome D
       + sum_list (map snd (filter (\<lambda>l. fst l \<in> operatingIncomeGuideIds env) (forecastLine m e)))"
  "expenses (vatLineStep env m D e)
     = expenses D @ namedLines env
         (filter (\<lambda>l. fst l \<notin> operatingIncomeGuideIds env \<and> snd l < 0
                      \<and> fst l \<notin> excludedExpenseIdsForVat env) (forecastLine m e))"
  "totalExpense (vatLineStep env m D e)
     = totalExpense D
       + sum_list (map snd
           (filter (\<lambda>l. fst l \<notin> operatingIncomeGuideIds env \<and> snd l < 0
                        \<and> fst l \<notin> excludedExpenseIdsForVat env) (forecastLine m e)))"
  by (cases e; simp add: vatLineStep_def forecastLine_def namedLines_def Let_def
      split: option.split)+

lemma vatLines_Cons:
  "vatIncomeLines env m (e # d)
     = filter (\<lambda>l. fst l \<in> operatingIncomeGuideIds env) (forecastLine m e) @ vatIncomeLines env m d"
  "vatExpenseLines env m (e # d)
     = filter (\<lambda>l. fst l \<notin> operatingIncomeGuideIds env \<and> snd l < 0
                   \<and> fst l \<notin> excludedExpenseIdsForVat env) (forecastLine m e)
       @ vatExpenseLines env m d"
  by (simp_all add: vatIncomeLines_def vatExpenseLines_def forecastLines_def)

lemma vatLines_Nil [simp]:
  "vatIncomeLines env m [] = []" "vatExpenseLines env m [] = []"
  by (simp_all add: vatIncomeLines_def vatExpenseLines_def forecastLines_def)

lemma namedLines_append [simp]: "namedLines env (xs @ ys) = namedLines env xs @ namedLines env ys"
  by (simp add: namedLines_def)

lemma namedLines_Nil [simp]: "namedLines env [] = []"
  by (simp add: namedLines_def)

lemma vatLine_fold_fields:
  "incomes (foldl (vatLineStep env m) D d) = incomes D @ namedLines env (vatIncomeLines env m d)"
  "totalIncome (foldl (vatLineStep env m) D d)
     = totalIncome D + sum_list (map snd (vatIncomeLines env m d))"
  "expenses (foldl (vatLineStep env m) D d) = expenses D @ namedLines env (vatExpenseLines env m d)"
  "totalExpense (foldl (vatLineStep env m) D d)
     = totalExpense D + sum_list (map snd (vatExpenseLines env m d))"
proof (induction d arbitrary: D)
  case Nil
  {
    case 1 show ?case by simp
  next
    case 2 show ?case by simp
  next
    case 3 show ?case by simp
  next
    case 4 show ?case by simp
  }
next
  case (Cons e d)
  {
    case 1 show ?case
      by (simp only: foldl_Cons Cons.IH(1) vatLineStep_fields(1) vatLines_Cons) simp
  next
    case 2 show ?case
      by (simp only: foldl_Cons Cons.IH(2) vatLineStep_fields(2) vatLines_Cons)
        (simp add: add.assoc)
  next
    case 3 show ?case
      by (simp only: foldl_Cons Cons.IH(3) vatLineStep_fields(3) vatLines_Cons) simp
  next
    case 4 show ?case
      by (simp only: foldl_Cons Cons.IH(4) vatLineStep_fields(4) vatLines_Cons)
        (simp add: add.assoc)
  }
qed

lemma vatDetailOf_fields:
  "incomes (vatDetailOf env m d) = namedLines env (vatIncomeLines env m d)"
  "expenses (vatDetailOf env m d) = namedLines env (vatExpenseLines env m d)"
  "totalIncome (vatDetailOf env m d) = sum_list (map snd (vatIncomeLines env m d))"
  "totalExpense (vatDetailOf env m d) = sum_list (map snd (vatExpenseLines env m d))"
  "ivaCobrado (vatDetailOf env m d) = totalIncome (vatDetailOf env m d) / 1.16 * 0.16"
  "ivaAcreditable (vatDetailOf env m d) = \<bar>totalExpense (vatDetailOf env m d)\<bar> / 1.16 * 0.16"
  "netVat (vatDetailOf env m d)
     = - (ivaCobrado (vatDetailOf env m d) - ivaAcreditable (vatDetailOf env m d))"
  by (simp_all add: vatDetailOf_def Let_def vatLine_fold_fields emptyVatDetail_def)

lemma vatStep_result:
  assumes "vatGuideId env = Some v" "v \<noteq> []" "isActiveId env v"
  shows "cellOf (vatStep env m st) v m
           = (if \<bar>netVat (vatDetailOf env m (forecastData st))\<bar> > 0.01
              then Some \<lparr>amount = netVat (vatDetailOf env m (forecastData st)), isForecast = True\<rparr>
              else cellOf st v m)"
    and "vatDetailsByMonth (vatStep env m st) m
           = (if \<bar>netVat (vatDetailOf env m (forecastData st))\<bar> > 0.01
              then Some (vatDetailOf env m (forecastData st))
              else vatDetailsByMonth st m)"
  using assms by (simp_all add: vatStep_def Let_def cellOf_def cellOf_setCell)

lemma vatStep_inactive:
  assumes "\<not> (\<exists>v. vatGuideId env = Some v \<and> v \<noteq> [] \<and> isActiveId env v)"
  shows "vatStep env m st = st"
  using assms by (auto simp: vatStep_def split: option.split)

lemma distinct_monthsOf: "distinct (monthsOf y)"
proof -
  have u: "[0..11] = [0, 1, 2, 3, 4, 5, 6, 7, 8, 9, 10, 11 :: int]"
    by code_simp
  show ?thesis
    unfolding monthsOf_def u
    by (simp add: pad2_def digitChar_def)
qed

lemma envOf_fields [simp]:
  "months (envOf guides transactions y af ex rnd) = monthsOf y"
  "lastRealDate (envOf guides transactions y af ex rnd) = lastRealDateOf transactions"
  "averages (envOf guides transactions y af ex rnd) = monthlyAverages guides transactions y af ex"
  "activeGuides (envOf guides transactions y af ex rnd) = activeGuides (catalogOf guides ex)"
  "vatGuideId (envOf guides transactions y af ex rnd) = vatGuideId (catalogOf guides ex)"
  "aguinaldoGuideId (envOf guides transactions y af ex rnd) = aguinaldoGuideId (catalogOf guides ex)"
  "ptuGuideId (envOf guides transactions y af ex rnd) = ptuGuideId (catalogOf guides ex)"
  "mathRandom (envOf guides transactions y af ex rnd) = rnd"
  by (simp_all add: envOf_def Catalog.extend_def catalogOf_def)

lemma loop_split:
  assumes "m \<in> set (months env)" and "isForecastMonth (lastRealDate env) m"
  shows "foldl (monthStep env) initialLoopState (months env)
         = foldl (monthStep env) (vatStep env m (beforeVat env m))
             (tl (dropWhile (\<lambda>x. x \<noteq> m) (months env)))"
proof -
  have "foldl (monthStep env) initialLoopState (months env)
        = foldl (monthStep env) initialLoopState
            (takeWhile (\<lambda>x. x \<noteq> m) (months env) @ m # tl (dropWhile (\<lambda>x. x \<noteq> m) (months env)))"
    using split_at_month [OF assms(1)] by simp
  also have "\<dots> = foldl (monthStep env)
                     (monthStep env
                        (foldl (monthStep env) initialLoopState
                           (takeWhile (\<lambda>x. x \<noteq> m) (months env))) m)
                     (tl (dropWhile (\<lambda>x. x \<noteq> m) (months env)))"
    by simp
  also have "monthStep env
               (foldl (monthStep env) initialLoopState (takeWhile (\<lambda>x. x \<noteq> m) (months env))) m
             = vatStep env m (beforeVat env m)"
    using assms(2) by (simp add: monthStep_def beforeVat_def)
  finally show ?thesis .
qed

lemma beforeVat_clean:
  "vatGuideId env = Some v \<Longrightarrow> cellOf (beforeVat env m) v m = None"
  "vatDetailsByMonth (beforeVat env m) m = None"
  by (simp_all add: beforeVat_def forecast_fold_cell_vat forecast_fold_vatDetails
      month_fold_cell month_fold_vatDetails before_month)
    (simp add: initialLoopState_def)

text \<open>
  C3, as the code has it.  Let \<open>D\<close> be the breakdown computed for a forecast month once
  every active guide has been forecast for it.  Its income lines are the month's stored
  forecasts of the operating-income categories, its expense lines the negative stored
  forecasts of the categories that are neither operating income nor in the exclusion list;
  \<open>ivaCobrado = totalIncome / 1.16 * 0.16\<close>, \<open>ivaAcreditable = |totalExpense| / 1.16 * 0.16\<close>
  and \<open>netVat = - (ivaCobrado - ivaAcreditable)\<close>.  When the catalog has an active VAT
  category with a non-empty id and \<open>|netVat| > 0.01\<close>, the VAT category's cell of the month
  is \<open>netVat\<close> and \<open>D\<close> is stored for the month; in every other case the VAT category
  gets no cell for the month and no breakdown is stored.
\<close>

theorem vat_forecast:
  "env = envOf guides transactions y af ex rnd \<Longrightarrow>
   m \<in> set (monthsOf y) \<Longrightarrow>
   isForecastMonth (lastRealDateOf transactions) m \<Longrightarrow>
   D = vatDetailOf env m (forecastData (beforeVat env m)) \<Longrightarrow>
   vatGuideId env = Some v \<Longrightarrow>
   incomes D = namedLines env (vatIncomeLines env m (forecastData (beforeVat env m)))
   \<and> expenses D = namedLines env (vatExpenseLines env m (forecastData (beforeVat env m)))
   \<and> totalIncome D = sum_list (map snd (vatIncomeLines env m (forecastData (beforeVat env m))))
   \<and> totalExpense D = sum_list (map snd (vatExpenseLines env m (forecastData (beforeVat env m))))
   \<and> ivaCobrado D = totalIncome D / 1.16 * 0.16
   \<and> ivaAcreditable D = \<bar>totalExpense D\<bar> / 1.16 * 0.16
   \<and> netVat D = - (ivaCobrado D - ivaAcreditable D)
   \<and> (if v \<noteq> [] \<and> isActiveId env v \<and> \<bar>netVat D\<bar> > 0.01
      then cellOf (forecastFlowData guides transactions y af ex rnd) v m
             = Some \<lparr>amount = netVat D, isForecast = True\<rparr>
           \<and> vatDetailsByMonth (forecastFlowData guides transactions y af ex rnd) m = Some D
      else cellOf (forecastFlowData guides transactions y af ex rnd) v m = None
           \<and> vatDetailsByMonth (forecastFlowData guides transactions y af ex rnd) m = None)"
proof -
  assume env: "env = envOf guides transactions y af ex rnd"
    and m: "m \<in> set (monthsOf y)"
    and f: "isForecastMonth (lastRealDateOf transactions) m"
    and D: "D = vatDetailOf env m (forecastData (beforeVat env m))"
    and v: "vatGuideId env = Some v"
  have ms: "months env = monthsOf y" and lr: "lastRealDate env = lastRealDateOf transactions"
    by (simp_all add: env)
  have after: "m \<notin> set (tl (dropWhile (\<lambda>x. x \<noteq> m) (months env)))"
    unfolding ms by (rule after_month_distinct [OF distinct_monthsOf])
  have flow: "forecastFlowData guides transactions y af ex rnd
              = foldl (monthStep env) (vatStep env m (beforeVat env m))
                  (tl (dropWhile (\<lambda>x. x \<noteq> m) (months env)))"
    unfolding forecastFlowData_def Let_def env [symmetric]
    by (rule loop_split) (simp_all add: ms lr m f)
  have c: "cellOf (forecastFlowData guides transactions y af ex rnd) v m
           = cellOf (vatStep env m (beforeVat env m)) v m"
    unfolding flow by (rule month_fold_cell [OF after])
  have d: "vatDetailsByMonth (forecastFlowData guides transactions y af ex rnd) m
           = vatDetailsByMonth (vatStep env m (beforeVat env m)) m"
    unfolding flow by (rule month_fold_vatDetails [OF after])
  have last: "if v \<noteq> [] \<and> isActiveId env v \<and> \<bar>netVat D\<bar> > 0.01
      then cellOf (forecastFlowData guides transactions y af ex rnd) v m
             = Some \<lparr>amount = netVat D, isForecast = True\<rparr>
           \<and> vatDetailsByMonth (forecastFlowData guides transactions y af ex rnd) m = Some D
      else cellOf (forecastFlowData guides transactions y af ex rnd) v m = None
           \<and> vatDetailsByMonth (forecastFlowData guides transactions y af ex rnd) m = None"
  proof (cases "v \<noteq> [] \<and> isActiveId env v")
    case True
    then have a: "v \<noteq> []" "isActiveId env v" by simp_all
    show ?thesis
      unfolding c d vatStep_result [OF v a] D [symmetric]
      using True by (simp add: beforeVat_clean(1) [OF v] beforeVat_clean(2))
  next
    case False
    with v have "vatStep env m (beforeVat env m) = beforeVat env m"
      by (intro vatStep_inactive) auto
    with False show ?thesis
      unfolding c d by (auto simp: beforeVat_clean(1) [OF v] beforeVat_clean(2))
  qed
  show ?thesis
    using last unfolding D by (simp add: vatDetailOf_fields)
qed

theorem vat_forecast_witness:
  "''2024-12'' \<in> set (monthsOf 2024)
   \<and> isForecastMonth (lastRealDateOf vatTransactions2) ''2024-12''
   \<and> vatGuideId (envOf vatGuides2 vatTransactions2 2024 AmountMN {} steadyRandom) = Some ''29''
   \<and> netVat (vatDetailOf (envOf vatGuides2 vatTransactions2 2024 AmountMN {} steadyRandom) ''2024-12''
        (forecastData (beforeVat (envOf vatGuides2 vatTransactions2 2024 AmountMN {} steadyRandom)
           ''2024-12''))) = - 80
   \<and> cellOf (forecastFlowData vatGuides2 vatTransactions2 2024 AmountMN {} steadyRandom)
        ''29'' ''2024-12'' = Some \<lparr>amount = - 80, isForecast = True\<rparr>
   \<and> map_option netVat
        (vatDetailsByMonth (forecastFlowData vatGuides2 vatTransactions2 2024 AmountMN {} steadyRandom)
           ''2024-12'') = Some (- 80)"
proof -
  define env where "env = envOf vatGuides2 vatTransactions2 2024 AmountMN {} steadyRandom"
  define D where "D = vatDetailOf env ''2024-12'' (forecastData (beforeVat env ''2024-12''))"
  have h1: "''2024-12'' \<in> set (monthsOf 2024)"
    by code_simp
  have h2: "isForecastMonth (lastRealDateOf vatTransactions2) ''2024-12''"
    by code_simp
  have "vatGuideId (catalogOf vatGuides2 {}) = Some ''29''"
    by code_simp
  then have h3: "vatGuideId env = Some ''29''"
    by (simp add: env_def)
  have "isActiveId (catalogOf vatGuides2 {}) ''29''"
    by code_simp
  then have h4: "isActiveId env ''29''"
    by (simp add: env_def isActiveId_def)
  have n: "netVat D = - 80"
    unfolding D_def env_def by code_simp
  from vat_forecast [OF env_def h1 h2 D_def h3] h4 n
  have "cellOf (forecastFlowData vatGuides2 vatTransactions2 2024 AmountMN {} steadyRandom)
          ''29'' ''2024-12'' = Some \<lparr>amount = - 80, isForecast = True\<rparr>
        \<and> vatDetailsByMonth (forecastFlowData vatGuides2 vatTransactions2 2024 AmountMN {} steadyRandom)
            ''2024-12'' = Some D"
    by simp
  with h1 h2 h3 n show ?thesis
    unfolding D_def env_def by simp
qed

text \<open>
  The claim's formula is not the code's.  An operating-income category whose forecast for
  December is -116 (a refund) and that is not in the exclusion list counts as income only:
  the code posts a VAT of 16, while the claim's formula, which also takes the -116 as an
  expense, gives 32.  And when the VAT category is excluded from the forecast, nothing is
  posted for it.
\<close>

theorem vat_not_as_claimed:
  "cellOf (forecastFlowData vatGuides vatTransactions 2024 AmountMN {} steadyRandom)
     ''29'' ''2024-12'' = Some \<lparr>amount = 16, isForecast = True\<rparr>
   \<and> vatAsClaimed (envOf vatGuides vatTransactions 2024 AmountMN {} steadyRandom) ''2024-12''
       (forecastData (beforeVat (envOf vatGuides vatTransactions 2024 AmountMN {} steadyRandom)
          ''2024-12'')) = 32
   \<and> cellOf (forecastFlowData vatGuides vatTransactions 2024 AmountMN {''29''} steadyRandom)
       ''29'' ''2024-12'' = None"
proof (intro conjI)
  show "cellOf (forecastFlowData vatGuides vatTransactions 2024 AmountMN {} steadyRandom)
     ''29'' ''2024-12'' = Some \<lparr>amount = 16, isForecast = True\<rparr>"
    by code_simp
  show "vatAsClaimed (envOf vatGuides vatTransactions 2024 AmountMN {} steadyRandom) ''2024-12''
       (forecastData (beforeVat (envOf vatGuides vatTransactions 2024 AmountMN {} steadyRandom)
          ''2024-12'')) = 32"
    by code_simp
  show "cellOf (forecastFlowData vatGuides vatTransactions 2024 AmountMN {''29''} steadyRandom)
       ''29'' ''2024-12'' = None"
    by code_simp
qed

subsection \<open>The forecast months of a year\<close>













subsection \<open>Reconciliation of the perturbed forecast\<close>


lemma correctionOf_initial [simp]: "correctionOf initialLoopState g = 0"
  by (simp add: correctionOf_def initialLoopState_def)















end
